theory Spec2Isabelle
  imports Complex_Main "HOL-Library.AList"
begin

text \<open>
  A shallow embedding of \<open>helpers/models/sana/transformer.py\<close>: the gated convolutional
  feed-forward block \<open>GLUMBConv\<close>, the transformer block \<open>SanaTransformerBlock\<close> and the model
  \<open>SanaTransformer2DModel\<close> with its attention-processor accessors, its mask handling, its
  patchify/unpatchify reshaping and its gradient-checkpointing policy. Definitions come first,
  the results about them after.
\<close>

section \<open>Errors and dictionaries\<close>

text \<open>
  The exceptions the module can raise, as values. A Python \<open>dict\<close> keyed by strings is an
  association list with distinct keys in insertion order: \<open>d[k] = v\<close> is
  \<open>AList.update k v d\<close>, \<open>len(d)\<close> is \<open>length d\<close>, \<open>d.pop(k)\<close> reads \<open>map_of d k\<close>
  (raising \<open>KeyError\<close> on \<open>None\<close>) and leaves \<open>AList.delete k d\<close>.
\<close>

datatype error =
    ValueError
  | KeyError string
  | AttributeError string
  | RuntimeError
  | IndexError
  | TypeError
  | ZeroDivisionError
  | AssertionError

type_synonym 'p dict = "(string \<times> 'p) list"

section \<open>The module tree and its attention processors\<close>

text \<open>
  A \<open>torch.nn.Module\<close> as far as \<open>attn_processors\<close> and \<open>set_attn_processor\<close> look at it:
  whether it has \<open>get_processor\<close>/\<open>set_processor\<close> (an \<open>Attention\<close> layer, holding its
  current processor) and its \<open>named_children()\<close>.
\<close>

datatype 'p module = Module (get_processor: "'p option") (named_children: "(string \<times> 'p module) list")

fun fn_recursive_add_processors :: "string \<Rightarrow> 'p module \<Rightarrow> 'p dict \<Rightarrow> 'p dict"
  and add_processors_children :: "string \<Rightarrow> (string \<times> 'p module) list \<Rightarrow> 'p dict \<Rightarrow> 'p dict"
where
  "fn_recursive_add_processors name (Module pr chs) processors =
     add_processors_children name chs
       (case pr of
          Some p \<Rightarrow> AList.update (name @ ''.processor'') p processors
        | None \<Rightarrow> processors)"
| "add_processors_children name [] processors = processors"
| "add_processors_children name ((sub_name, child) # rest) processors =
     add_processors_children name rest
       (fn_recursive_add_processors (name @ ''.'' @ sub_name) child processors)"

fun add_processors_top :: "(string \<times> 'p module) list \<Rightarrow> 'p dict \<Rightarrow> 'p dict" where
  "add_processors_top [] processors = processors"
| "add_processors_top ((name, m) # rest) processors =
     add_processors_top rest (fn_recursive_add_processors name m processors)"

definition attn_processors :: "'p module \<Rightarrow> 'p dict" where
  "attn_processors self = add_processors_top (named_children self) []"

text \<open>
  The argument of \<open>set_attn_processor\<close>: one processor or a dict of them. The dict is
  consumed by \<open>pop\<close> while the tree is walked, so the walk returns the tree as it stands,
  what is left of the argument, and the exception raised, if any. A \<open>KeyError\<close> stops the
  walk where it is raised: layers already visited keep their new processor.
\<close>

datatype 'p processor_arg = Single 'p | Dict "'p dict"

fun fn_recursive_attn_processor ::
    "string \<Rightarrow> 'p module \<Rightarrow> 'p processor_arg \<Rightarrow> 'p module \<times> 'p processor_arg \<times> error option"
  and attn_processor_children ::
    "string \<Rightarrow> (string \<times> 'p module) list \<Rightarrow> 'p processor_arg
       \<Rightarrow> (string \<times> 'p module) list \<times> 'p processor_arg \<times> error option"
where
  "fn_recursive_attn_processor name (Module pr chs) processor =
     (case pr of
        None \<Rightarrow>
          (case attn_processor_children name chs processor of
             (chs', processor', e) \<Rightarrow> (Module None chs', processor', e))
      | Some old \<Rightarrow>
          (case processor of
             Single p \<Rightarrow>
               (case attn_processor_children name chs processor of
                  (chs', processor', e) \<Rightarrow> (Module (Some p) chs', processor', e))
           | Dict d \<Rightarrow>
               (case map_of d (name @ ''.processor'') of
                  None \<Rightarrow> (Module (Some old) chs, processor, Some (KeyError (name @ ''.processor'')))
                | Some p \<Rightarrow>
                    (case attn_processor_children name chs
                            (Dict (AList.delete (name @ ''.processor'') d)) of
                       (chs', processor', e) \<Rightarrow> (Module (Some p) chs', processor', e)))))"
| "attn_processor_children name [] processor = ([], processor, None)"
| "attn_processor_children name ((sub_name, child) # rest) processor =
     (case fn_recursive_attn_processor (name @ ''.'' @ sub_name) child processor of
        (child', processor', Some e) \<Rightarrow> ((sub_name, child') # rest, processor', Some e)
      | (child', processor', None) \<Rightarrow>
          (case attn_processor_children name rest processor' of
             (rest', processor'', e) \<Rightarrow> ((sub_name, child') # rest', processor'', e)))"

fun attn_processor_top ::
    "(string \<times> 'p module) list \<Rightarrow> 'p processor_arg
       \<Rightarrow> (string \<times> 'p module) list \<times> 'p processor_arg \<times> error option"
where
  "attn_processor_top [] processor = ([], processor, None)"
| "attn_processor_top ((name, m) # rest) processor =
     (case fn_recursive_attn_processor name m processor of
        (m', processor', Some e) \<Rightarrow> ((name, m') # rest, processor', Some e)
      | (m', processor', None) \<Rightarrow>
          (case attn_processor_top rest processor' of
             (rest', processor'', e) \<Rightarrow> ((name, m') # rest', processor'', e)))"

fun is_dict :: "'p processor_arg \<Rightarrow> bool" where
  "is_dict (Dict d) = True"
| "is_dict (Single p) = False"

fun len_arg :: "'p processor_arg \<Rightarrow> nat" where
  "len_arg (Dict d) = length d"
| "len_arg (Single p) = 0"

definition set_attn_processor ::
    "'p module \<Rightarrow> 'p processor_arg \<Rightarrow> 'p module \<times> 'p processor_arg \<times> error option"
where
  "set_attn_processor self processor =
     (let count = length (attn_processors self) in
      if is_dict processor \<and> len_arg processor \<noteq> count then (self, processor, Some ValueError)
      else
        (case attn_processor_top (named_children self) processor of
           (chs', processor', e) \<Rightarrow> (Module (get_processor self) chs', processor', e)))"

text \<open>
  Helpers for stating results about the walk: the dotted paths of the \<open>Attention\<close> layers
  in visiting order, a dict with every value replaced by one processor, the dict obtained by
  storing under each path the value a supplied dict holds for it, and what \<open>pop\<close> has
  removed from a dict.
\<close>

fun attn_paths_rec :: "string \<Rightarrow> 'p module \<Rightarrow> string list"
  and attn_paths_children :: "string \<Rightarrow> (string \<times> 'p module) list \<Rightarrow> string list"
where
  "attn_paths_rec name (Module pr chs) =
     (case pr of Some p \<Rightarrow> [name @ ''.processor''] | None \<Rightarrow> []) @ attn_paths_children name chs"
| "attn_paths_children name [] = []"
| "attn_paths_children name ((sub_name, child) # rest) =
     attn_paths_rec (name @ ''.'' @ sub_name) child @ attn_paths_children name rest"

fun attn_paths_top :: "(string \<times> 'p module) list \<Rightarrow> string list" where
  "attn_paths_top [] = []"
| "attn_paths_top ((name, m) # rest) = attn_paths_rec name m @ attn_paths_top rest"

definition attn_paths :: "'p module \<Rightarrow> string list" where
  "attn_paths self = attn_paths_top (named_children self)"

definition assign :: "'p dict \<Rightarrow> string list \<Rightarrow> 'p dict \<Rightarrow> 'p dict" where
  "assign d ks ps = fold (\<lambda>k. AList.update k (the (map_of d k))) ks ps"

definition all_to :: "'p \<Rightarrow> 'p dict \<Rightarrow> 'p dict" where
  "all_to p ps = map (\<lambda>kv. (fst kv, p)) ps"

definition popped :: "string set \<Rightarrow> 'p dict \<Rightarrow> 'p dict \<Rightarrow> bool" where
  "popped S d d' \<longleftrightarrow> (\<forall>k. map_of d' k = (if k \<in> S then None else map_of d k))"

text \<open>A small model tree: one transformer block with its two attention layers.\<close>

definition example_tree :: "nat module" where
  "example_tree =
     Module None
       [(''patch_embed'', Module None []),
        (''transformer_blocks'',
           Module None
             [(''0'', Module None
                 [(''norm1'', Module None []),
                  (''attn1'', Module (Some 0) [(''to_q'', Module None [])]),
                  (''attn2'', Module (Some 1) []),
                  (''ff'', Module None [])])]),
        (''proj_out'', Module None [])]"

section \<open>Floating-point rounding\<close>

text \<open>
  A binary floating-point number is a rational. \<open>fp_round p x\<close> is the IEEE rounding of the
  exact value \<open>x\<close> to a significand of \<open>p\<close> bits, to nearest with ties to even. The exponent
  range is not bounded: overflow to infinity and subnormal numbers are outside the model,
  which matters only for magnitudes far from any used here. \<open>bit_length\<close> is Python's
  \<open>int.bit_length\<close>.
\<close>

function bit_length :: "int \<Rightarrow> int" where
  "bit_length n = (if n \<le> 0 then 0 else 1 + bit_length (n div 2))"
  by pat_completeness auto
termination
  by (relation "measure nat") auto

declare bit_length.simps [simp del]

definition pow2 :: "int \<Rightarrow> rat" where
  "pow2 e = (if 0 \<le> e then 2 ^ nat e else 1 / 2 ^ nat (- e))"

definition floor_log2 :: "rat \<Rightarrow> int" where
  "floor_log2 x =
     (case quotient_of x of
        (num, den) \<Rightarrow>
          let d = bit_length num - bit_length den
          in if pow2 d \<le> x then d else d - 1)"

definition round_half_even :: "rat \<Rightarrow> int" where
  "round_half_even s =
     (let f = \<lfloor>s\<rfloor>; r = s - of_int f
      in if r < 1 / 2 then f
         else if 1 / 2 < r then f + 1
         else if even f then f else f + 1)"

definition fp_round :: "nat \<Rightarrow> rat \<Rightarrow> rat" where
  "fp_round p x =
     (if x = 0 then 0
      else let a = \<bar>x\<bar>;
               e = floor_log2 a;
               m = round_half_even (a * pow2 (int p - 1 - e))
           in sgn x * of_int m * pow2 (e - (int p - 1)))"

text \<open>
  Python's \<open>float * int\<close>: the integer is converted to a double, and the product of the two
  doubles is rounded to a double. The float operand is given by its exact value.
\<close>

definition py_float_mul_int :: "rat \<Rightarrow> int \<Rightarrow> rat" where
  "py_float_mul_int x n = fp_round 53 (x * fp_round 53 (of_int n))"


section \<open>The tensor framework, as the model sees it\<close>

text \<open>
  The module is written on top of a tensor library and a layer library. Their numerics are
  outside this development: the forward computations below take them as two records of
  operations over an arbitrary tensor type \<open>'t\<close>. \<open>tensor_ops\<close> holds the tensor methods the
  source calls (\<open>reshape\<close>, \<open>permute\<close>, \<open>chunk\<close>, broadcasting arithmetic, ...), \<open>layers\<close> the
  \<open>forward\<close> of each library layer, applied to the layer's configuration, together with
  \<open>torch.utils.checkpoint.checkpoint\<close>, \<open>torch.randn\<close> and the two global switches the source
  reads. Learned parameter values are part of the kernels. \<open>t_div_sqrt x n\<close> is \<open>x / n**0.5\<close>. Every operation that can raise
  returns \<open>error + 't\<close>. Dtype and device moves (\<open>.to\<close>) are the identity.
\<close>

definition bindE :: "error + 'a \<Rightarrow> ('a \<Rightarrow> error + 'b) \<Rightarrow> error + 'b" where
  "bindE m f = (case m of Inl e \<Rightarrow> Inl e | Inr x \<Rightarrow> f x)"

record 't tensor_ops =
  t_shape :: "'t \<Rightarrow> nat list"
  t_reshape :: "'t \<Rightarrow> int list \<Rightarrow> error + 't"
  t_permute :: "'t \<Rightarrow> nat list \<Rightarrow> error + 't"
  t_movedim :: "'t \<Rightarrow> int \<Rightarrow> int \<Rightarrow> error + 't"
  t_unsqueeze :: "'t \<Rightarrow> nat \<Rightarrow> error + 't"
  t_unflatten :: "'t \<Rightarrow> nat \<Rightarrow> nat list \<Rightarrow> error + 't"
  t_flatten :: "'t \<Rightarrow> nat \<Rightarrow> nat \<Rightarrow> error + 't"
  t_chunk :: "'t \<Rightarrow> nat \<Rightarrow> nat \<Rightarrow> error + 't list"
  t_add :: "'t \<Rightarrow> 't \<Rightarrow> error + 't"
  t_mul :: "'t \<Rightarrow> 't \<Rightarrow> error + 't"
  t_add_scalar :: "real \<Rightarrow> 't \<Rightarrow> 't"
  t_rsub_scalar :: "real \<Rightarrow> 't \<Rightarrow> 't"
  t_mul_scalar :: "'t \<Rightarrow> real \<Rightarrow> 't"
  t_div_sqrt :: "'t \<Rightarrow> nat \<Rightarrow> 't"
  t_remainder_eq0 :: "'t \<Rightarrow> int \<Rightarrow> 't"

definition to_dtype :: "'t \<Rightarrow> 't" where
  "to_dtype x = x"

text \<open>Configurations of the library layers the module instantiates.\<close>

record conv2d =
  conv_in_channels :: nat
  conv_out_channels :: nat
  conv_kernel_size :: nat
  conv_stride :: nat
  conv_padding :: nat
  conv_groups :: nat
  conv_bias :: bool

record rms_norm =
  rms_dim :: nat
  rms_elementwise_affine :: bool
  rms_bias :: bool

record layer_norm =
  ln_dim :: nat
  ln_elementwise_affine :: bool

record linear =
  lin_in_features :: nat
  lin_out_features :: nat

datatype attn_processor = SanaLinearAttnProcessor2_0 | AttnProcessor2_0

record attention =
  attn_query_dim :: nat
  attn_cross_attention_dim :: "nat option"
  attn_heads :: nat
  attn_dim_head :: nat
  attn_bias :: bool
  attn_out_bias :: bool
  attn_processor :: attn_processor

record patch_embed =
  pe_height :: nat
  pe_width :: nat
  pe_patch_size :: nat
  pe_in_channels :: nat
  pe_embed_dim :: nat

record text_projection =
  tp_in_features :: nat
  tp_hidden_size :: nat

text \<open>
  The arguments a transformer block is called with, in the order of its signature:
  \<open>hidden_states, attention_mask, encoder_hidden_states, encoder_attention_mask, timestep,
  height, width\<close>.
\<close>

type_synonym 't block_inputs = "'t \<times> 't option \<times> 't option \<times> 't option \<times> 't \<times> nat \<times> nat"

record 't layers =
  l_patch_embed :: "patch_embed \<Rightarrow> 't \<Rightarrow> error + 't"
  l_time_embed :: "nat \<Rightarrow> 't \<Rightarrow> nat \<Rightarrow> error + ('t \<times> 't)"
  l_caption_projection :: "text_projection \<Rightarrow> 't \<Rightarrow> error + 't"
  l_rms_norm :: "rms_norm \<Rightarrow> 't \<Rightarrow> error + 't"
  l_layer_norm :: "layer_norm \<Rightarrow> 't \<Rightarrow> error + 't"
  l_attention :: "attention \<Rightarrow> 't \<Rightarrow> 't option \<Rightarrow> 't option \<Rightarrow> error + 't"
  l_conv2d :: "conv2d \<Rightarrow> 't \<Rightarrow> error + 't"
  l_silu :: "'t \<Rightarrow> 't"
  l_linear :: "linear \<Rightarrow> 't \<Rightarrow> error + 't"
  l_randn :: "nat list \<Rightarrow> 't"
  l_checkpoint :: "bool \<Rightarrow> ('t block_inputs \<Rightarrow> error + 't) \<Rightarrow> 't block_inputs \<Rightarrow> error + 't"
  l_is_grad_enabled :: bool
  l_torch_le_1_11_0 :: bool

text \<open>
  \<open>nn.Conv2d(in_channels, out_channels, kernel_size, stride, padding, groups=..., bias=...)\<close>:
  the constructor rejects \<open>groups \<le> 0\<close> and channel counts that \<open>groups\<close> does not divide
  with \<open>ValueError\<close>, and cannot allocate a weight with a negative dimension.
\<close>

definition Conv2d :: "int \<Rightarrow> int \<Rightarrow> nat \<Rightarrow> nat \<Rightarrow> nat \<Rightarrow> int \<Rightarrow> bool \<Rightarrow> error + conv2d" where
  "Conv2d in_channels out_channels kernel_size stride padding groups bias =
     (if groups \<le> 0 then Inl ValueError
      else if in_channels mod groups \<noteq> 0 then Inl ValueError
      else if out_channels mod groups \<noteq> 0 then Inl ValueError
      else if out_channels < 0 \<or> in_channels < 0 then Inl RuntimeError
      else Inr \<lparr>conv_in_channels = nat in_channels, conv_out_channels = nat out_channels,
                conv_kernel_size = kernel_size, conv_stride = stride, conv_padding = padding,
                conv_groups = nat groups, conv_bias = bias\<rparr>)"


section \<open>GLUMBConv\<close>

text \<open>
  Python's \<open>int(x)\<close> on a float truncates towards zero. \<open>expand_ratio\<close> is a float; it is
  modelled by a rational and the product \<open>expand_ratio * in_channels\<close> is taken exactly.
\<close>

definition py_int :: "rat \<Rightarrow> int" where
  "py_int x = (if 0 \<le> x then \<lfloor>x\<rfloor> else \<lceil>x\<rceil>)"

record GLUMBConv =
  glu_norm_type :: "string option"
  glu_residual_connection :: bool
  glu_conv_inverted :: conv2d
  glu_conv_depth :: conv2d
  glu_conv_point :: conv2d
  glu_norm :: "rms_norm option"

definition GLUMBConv_init ::
    "nat \<Rightarrow> nat \<Rightarrow> rat \<Rightarrow> string option \<Rightarrow> bool \<Rightarrow> error + GLUMBConv"
where
  "GLUMBConv_init in_channels out_channels expand_ratio norm_type residual_connection =
     (let hidden_channels = py_int (expand_ratio * of_nat in_channels) in
      bindE (Conv2d (int in_channels) (hidden_channels * 2) 1 1 0 1 True) (\<lambda>conv_inverted.
      bindE (Conv2d (hidden_channels * 2) (hidden_channels * 2) 3 1 1 (hidden_channels * 2) True)
        (\<lambda>conv_depth.
      bindE (Conv2d hidden_channels (int out_channels) 1 1 0 1 False) (\<lambda>conv_point.
      Inr \<lparr>glu_norm_type = norm_type,
           glu_residual_connection = residual_connection,
           glu_conv_inverted = conv_inverted,
           glu_conv_depth = conv_depth,
           glu_conv_point = conv_point,
           glu_norm =
             (if norm_type = Some ''rms_norm''
              then Some \<lparr>rms_dim = out_channels, rms_elementwise_affine = True, rms_bias = True\<rparr>
              else None)\<rparr>))))"

text \<open>Unpacking a sequence into two names raises \<open>ValueError\<close> unless it has two elements.\<close>

fun unpack2 :: "'a list \<Rightarrow> error + ('a \<times> 'a)" where
  "unpack2 [a, b] = Inr (a, b)"
| "unpack2 xs = Inl ValueError"

definition GLUMBConv_forward ::
    "'t tensor_ops \<Rightarrow> 't layers \<Rightarrow> GLUMBConv \<Rightarrow> 't \<Rightarrow> error + 't"
where
  "GLUMBConv_forward T L self hidden_states =
     (let residual = hidden_states in
      bindE (l_conv2d L (glu_conv_inverted self) hidden_states) (\<lambda>hidden_states.
      let hidden_states = l_silu L hidden_states in
      bindE (l_conv2d L (glu_conv_depth self) hidden_states) (\<lambda>hidden_states.
      bindE (t_chunk T hidden_states 2 1) (\<lambda>chunks.
      bindE (unpack2 chunks) (\<lambda>(hidden_states, gate).
      bindE (t_mul T hidden_states (l_silu L gate)) (\<lambda>hidden_states.
      bindE (l_conv2d L (glu_conv_point self) hidden_states) (\<lambda>hidden_states.
      bindE (if glu_norm_type self = Some ''rms_norm''
             then (case glu_norm self of
                     None \<Rightarrow> Inl TypeError
                   | Some rms \<Rightarrow>
                       bindE (t_movedim T hidden_states 1 (-1)) (\<lambda>moved.
                       bindE (l_rms_norm L rms moved) (\<lambda>normed.
                       t_movedim T normed (-1) 1)))
             else Inr hidden_states) (\<lambda>hidden_states.
      if glu_residual_connection self then t_add T hidden_states residual
      else Inr hidden_states))))))))"


section \<open>SanaTransformerBlock\<close>

text \<open>
  An attribute that \<open>__init__\<close> assigns only on some paths is an \<open>option\<close>: \<open>None\<close> is
  "never assigned", and reading it raises \<open>AttributeError\<close> as \<open>nn.Module.__getattr__\<close>
  does. \<open>blk_gradient_checkpointing\<close> is such an attribute too: the block class never
  assigns it, \<open>_set_gradient_checkpointing\<close> overwrites it where it exists. \<open>dropout\<close> and
  \<open>norm_eps\<close> only reach the numerics of the layers and are left out.
\<close>

record 't SanaTransformerBlock =
  blk_norm1 :: layer_norm
  blk_attn1 :: attention
  blk_norm2 :: "layer_norm option"
  blk_attn2 :: "attention option"
  blk_ff :: GLUMBConv
  blk_scale_shift_table :: 't
  blk_gradient_checkpointing :: "'t option"

definition SanaTransformerBlock_init ::
    "'t tensor_ops \<Rightarrow> 't layers \<Rightarrow> nat \<Rightarrow> nat \<Rightarrow> nat \<Rightarrow> nat \<Rightarrow> nat \<Rightarrow> nat option
       \<Rightarrow> bool \<Rightarrow> bool \<Rightarrow> bool \<Rightarrow> rat \<Rightarrow> error + 't SanaTransformerBlock"
where
  "SanaTransformerBlock_init T L dim' num_attention_heads attention_head_dim
       num_cross_attention_heads cross_attention_head_dim cross_attention_dim
       attention_bias norm_elementwise_affine attention_out_bias mlp_ratio =
     (let norm1 = \<lparr>ln_dim = dim', ln_elementwise_affine = False\<rparr>;
          attn1 = \<lparr>attn_query_dim = dim', attn_cross_attention_dim = None,
                    attn_heads = num_attention_heads, attn_dim_head = attention_head_dim,
                    attn_bias = attention_bias, attn_out_bias = True,
                    attn_processor = SanaLinearAttnProcessor2_0\<rparr>;
          norm2 = (case cross_attention_dim of
                     None \<Rightarrow> None
                   | Some c \<Rightarrow>
                       Some \<lparr>ln_dim = dim', ln_elementwise_affine = norm_elementwise_affine\<rparr>);
          attn2 = (case cross_attention_dim of
                     None \<Rightarrow> None
                   | Some c \<Rightarrow>
                       Some \<lparr>attn_query_dim = dim', attn_cross_attention_dim = Some c,
                             attn_heads = num_cross_attention_heads,
                             attn_dim_head = cross_attention_head_dim,
                             attn_bias = True, attn_out_bias = attention_out_bias,
                             attn_processor = AttnProcessor2_0\<rparr>)
      in
      bindE (GLUMBConv_init dim' dim' mlp_ratio None False) (\<lambda>ff.
      Inr \<lparr>blk_norm1 = norm1, blk_attn1 = attn1, blk_norm2 = norm2, blk_attn2 = attn2,
           blk_ff = ff,
           blk_scale_shift_table = t_div_sqrt T (l_randn L [6, dim']) dim',
           blk_gradient_checkpointing = None\<rparr>))"

fun unpack6 :: "'a list \<Rightarrow> error + ('a \<times> 'a \<times> 'a \<times> 'a \<times> 'a \<times> 'a)" where
  "unpack6 [a, b, c, d, e, f] = Inr (a, b, c, d, e, f)"
| "unpack6 xs = Inl ValueError"

definition shape_first :: "nat list \<Rightarrow> error + nat" where
  "shape_first s = (case s of [] \<Rightarrow> Inl IndexError | n # _ \<Rightarrow> Inr n)"

definition shape_last :: "nat list \<Rightarrow> error + nat" where
  "shape_last s = (if s = [] then Inl IndexError else Inr (last s))"

text \<open>
  Step 1 of the block: \<open>(self.scale_shift_table[None] + timestep.reshape(batch_size, 6, -1))\<close>,
  and its \<open>.chunk(6, dim=1)\<close>.
\<close>

definition modulation_sum :: "'t tensor_ops \<Rightarrow> 't \<Rightarrow> 't \<Rightarrow> nat \<Rightarrow> error + 't" where
  "modulation_sum T scale_shift_table timestep batch_size =
     bindE (t_unsqueeze T scale_shift_table 0) (\<lambda>table.
     bindE (t_reshape T timestep [int batch_size, 6, -1]) (\<lambda>reshaped.
     t_add T table reshaped))"

definition modulation ::
    "'t tensor_ops \<Rightarrow> 't \<Rightarrow> 't \<Rightarrow> nat \<Rightarrow> error + ('t \<times> 't \<times> 't \<times> 't \<times> 't \<times> 't)"
where
  "modulation T scale_shift_table timestep batch_size =
     bindE (modulation_sum T scale_shift_table timestep batch_size) (\<lambda>s.
     bindE (t_chunk T s 6 1) unpack6)"

definition SanaTransformerBlock_forward ::
    "'t tensor_ops \<Rightarrow> 't layers \<Rightarrow> 't SanaTransformerBlock \<Rightarrow> 't \<Rightarrow> 't option \<Rightarrow> 't option
       \<Rightarrow> 't option \<Rightarrow> 't \<Rightarrow> nat \<Rightarrow> nat \<Rightarrow> error + 't"
where
  "SanaTransformerBlock_forward T L self hidden_states attention_mask encoder_hidden_states
       encoder_attention_mask timestep height width =
     bindE (shape_first (t_shape T hidden_states)) (\<lambda>batch_size.
     bindE (modulation T (blk_scale_shift_table self) timestep batch_size)
       (\<lambda>(shift_msa, scale_msa, gate_msa, shift_mlp, scale_mlp, gate_mlp).
     bindE (l_layer_norm L (blk_norm1 self) hidden_states) (\<lambda>norm_hidden_states.
     bindE (t_mul T norm_hidden_states (t_add_scalar T 1 scale_msa)) (\<lambda>norm_hidden_states.
     bindE (t_add T norm_hidden_states shift_msa) (\<lambda>norm_hidden_states.
     let norm_hidden_states = to_dtype norm_hidden_states in
     bindE (l_attention L (blk_attn1 self) norm_hidden_states None None) (\<lambda>attn_output.
     bindE (t_mul T gate_msa attn_output) (\<lambda>gated.
     bindE (t_add T hidden_states gated) (\<lambda>hidden_states.
     bindE (case blk_attn2 self of
              None \<Rightarrow> Inl (AttributeError ''attn2'')
            | Some attn2 \<Rightarrow>
                bindE (l_attention L attn2 hidden_states encoder_hidden_states
                         encoder_attention_mask) (\<lambda>attn_output.
                t_add T attn_output hidden_states)) (\<lambda>hidden_states.
     bindE (case blk_norm2 self of
              None \<Rightarrow> Inl (AttributeError ''norm2'')
            | Some norm2 \<Rightarrow> l_layer_norm L norm2 hidden_states) (\<lambda>norm_hidden_states.
     bindE (t_mul T norm_hidden_states (t_add_scalar T 1 scale_mlp)) (\<lambda>norm_hidden_states.
     bindE (t_add T norm_hidden_states shift_mlp) (\<lambda>norm_hidden_states.
     bindE (t_unflatten T norm_hidden_states 1 [height, width]) (\<lambda>norm_hidden_states.
     bindE (t_permute T norm_hidden_states [0, 3, 1, 2]) (\<lambda>norm_hidden_states.
     bindE (GLUMBConv_forward T L (blk_ff self) norm_hidden_states) (\<lambda>ff_output.
     bindE (t_flatten T ff_output 2 3) (\<lambda>ff_output.
     bindE (t_permute T ff_output [0, 2, 1]) (\<lambda>ff_output.
     bindE (t_mul T gate_mlp ff_output) (\<lambda>gated.
     t_add T hidden_states gated))))))))))))))))))"

fun SanaTransformerBlock_call ::
    "'t tensor_ops \<Rightarrow> 't layers \<Rightarrow> 't SanaTransformerBlock \<Rightarrow> 't block_inputs \<Rightarrow> error + 't"
where
  "SanaTransformerBlock_call T L block
       (hidden_states, attention_mask, encoder_hidden_states, encoder_attention_mask,
        timestep, height, width) =
     SanaTransformerBlock_forward T L block hidden_states attention_mask encoder_hidden_states
       encoder_attention_mask timestep height width"


section \<open>SanaTransformer2DModel\<close>

text \<open>
  The arguments of \<open>__init__\<close>, which \<open>register_to_config\<close> keeps as \<open>self.config\<close>.
  Sizes are natural numbers; the optional ones are \<open>option\<close>s.
\<close>

record sana_config =
  in_channels :: nat
  out_channels :: "nat option"
  num_attention_heads :: nat
  attention_head_dim :: nat
  num_layers :: nat
  num_cross_attention_heads :: nat
  cross_attention_head_dim :: nat
  cross_attention_dim :: "nat option"
  caption_channels :: nat
  mlp_ratio :: rat
  attention_bias :: bool
  sample_size :: nat
  patch_size :: nat
  norm_elementwise_affine :: bool

record 't SanaTransformer2DModel =
  config :: sana_config
  patch_embed :: patch_embed
  time_embed :: nat
  caption_projection :: text_projection
  caption_norm :: rms_norm
  transformer_blocks :: "'t SanaTransformerBlock list"
  scale_shift_table :: 't
  norm_out :: layer_norm
  proj_out :: linear
  gradient_checkpointing :: bool
  gradient_checkpointing_interval :: "int option"

text \<open>Python's \<open>a or b\<close> on an optional integer: \<open>None\<close> and \<open>0\<close> are falsy.\<close>

definition py_or :: "nat option \<Rightarrow> nat \<Rightarrow> nat" where
  "py_or a b = (case a of None \<Rightarrow> b | Some n \<Rightarrow> if n = 0 then b else n)"

text \<open>
  \<open>PatchEmbed(height, width, patch_size, in_channels, embed_dim, interpolation_scale=None,
  pos_embed_type=None)\<close>: its constructor computes \<open>height // patch_size\<close>.
\<close>

definition PatchEmbed :: "nat \<Rightarrow> nat \<Rightarrow> nat \<Rightarrow> nat \<Rightarrow> nat \<Rightarrow> error + patch_embed" where
  "PatchEmbed height width p in_ch embed_dim =
     (if p = 0 then Inl ZeroDivisionError
      else Inr \<lparr>pe_height = height, pe_width = width, pe_patch_size = p,
                pe_in_channels = in_ch, pe_embed_dim = embed_dim\<rparr>)"

text \<open>The list comprehension \<open>[SanaTransformerBlock(...) for _ in range(num_layers)]\<close>.\<close>

fun make_blocks :: "nat \<Rightarrow> (error + 'b) \<Rightarrow> error + 'b list" where
  "make_blocks 0 mk = Inr []"
| "make_blocks (Suc n) mk = bindE mk (\<lambda>b. bindE (make_blocks n mk) (\<lambda>bs. Inr (b # bs)))"

definition SanaTransformer2DModel_init ::
    "'t tensor_ops \<Rightarrow> 't layers \<Rightarrow> sana_config \<Rightarrow> error + 't SanaTransformer2DModel"
where
  "SanaTransformer2DModel_init T L cfg =
     (let out_channels = py_or (out_channels cfg) (in_channels cfg);
          inner_dim = num_attention_heads cfg * attention_head_dim cfg in
      bindE (PatchEmbed (sample_size cfg) (sample_size cfg) (patch_size cfg) (in_channels cfg)
               inner_dim) (\<lambda>patch_embed.
      bindE (make_blocks (num_layers cfg)
               (SanaTransformerBlock_init T L inner_dim (num_attention_heads cfg)
                  (attention_head_dim cfg) (num_cross_attention_heads cfg)
                  (cross_attention_head_dim cfg) (cross_attention_dim cfg)
                  (attention_bias cfg) (norm_elementwise_affine cfg) True (mlp_ratio cfg)))
        (\<lambda>blocks.
      Inr \<lparr>config = cfg,
           patch_embed = patch_embed,
           time_embed = inner_dim,
           caption_projection =
             \<lparr>tp_in_features = caption_channels cfg, tp_hidden_size = inner_dim\<rparr>,
           caption_norm =
             \<lparr>rms_dim = inner_dim, rms_elementwise_affine = True, rms_bias = False\<rparr>,
           transformer_blocks = blocks,
           scale_shift_table = t_div_sqrt T (l_randn L [2, inner_dim]) inner_dim,
           norm_out = \<lparr>ln_dim = inner_dim, ln_elementwise_affine = False\<rparr>,
           proj_out =
             \<lparr>lin_in_features = inner_dim,
              lin_out_features = patch_size cfg * patch_size cfg * out_channels\<rparr>,
           gradient_checkpointing = False,
           gradient_checkpointing_interval = None\<rparr>)))"

definition set_gradient_checkpointing_interval ::
    "'t SanaTransformer2DModel \<Rightarrow> int \<Rightarrow> 't SanaTransformer2DModel"
where
  "set_gradient_checkpointing_interval self interval =
     self\<lparr>gradient_checkpointing_interval := Some interval\<rparr>"

text \<open>
  \<open>_set_gradient_checkpointing(module, value)\<close> assigns only where the attribute exists
  (\<open>hasattr\<close>). Applied to the model itself it sets the model's switch; applied to a block
  it is the function below.
\<close>

definition set_gradient_checkpointing_block ::
    "'t SanaTransformerBlock \<Rightarrow> 't \<Rightarrow> 't SanaTransformerBlock"
where
  "set_gradient_checkpointing_block m v =
     (if blk_gradient_checkpointing m \<noteq> None
      then m\<lparr>blk_gradient_checkpointing := Some v\<rparr>
      else m)"

text \<open>
  \<open>create_block_forward(block)\<close> returns either the block itself or the block wrapped in
  \<open>torch.utils.checkpoint.checkpoint\<close>.
\<close>

datatype 't block_forward = Checkpointed "'t SanaTransformerBlock" | Eager "'t SanaTransformerBlock"

definition create_block_forward ::
    "'t tensor_ops \<Rightarrow> 't layers \<Rightarrow> 't SanaTransformer2DModel \<Rightarrow> 't \<Rightarrow> 't SanaTransformerBlock
       \<Rightarrow> 't block_forward"
where
  "create_block_forward T L self timestep block =
     (let block =
        (case gradient_checkpointing_interval self of
           None \<Rightarrow> block
         | Some interval \<Rightarrow>
             if interval > 0 \<and> gradient_checkpointing self
             then set_gradient_checkpointing_block block (t_remainder_eq0 T timestep interval)
             else block)
      in if l_is_grad_enabled L \<and> gradient_checkpointing self then Checkpointed block
         else Eager block)"

definition call_block_forward ::
    "'t tensor_ops \<Rightarrow> 't layers \<Rightarrow> 't block_forward \<Rightarrow> 't block_inputs \<Rightarrow> error + 't"
where
  "call_block_forward T L bf inputs =
     (case bf of
        Checkpointed block \<Rightarrow>
          l_checkpoint L (l_torch_le_1_11_0 L) (SanaTransformerBlock_call T L block) inputs
      | Eager block \<Rightarrow> SanaTransformerBlock_call T L block inputs)"

text \<open>The loop \<open>for block in self.transformer_blocks\<close>.\<close>

fun run_blocks ::
    "'t tensor_ops \<Rightarrow> 't layers \<Rightarrow> 't SanaTransformer2DModel \<Rightarrow> 't SanaTransformerBlock list
       \<Rightarrow> 't \<Rightarrow> 't option \<Rightarrow> 't \<Rightarrow> 't option \<Rightarrow> 't \<Rightarrow> nat \<Rightarrow> nat \<Rightarrow> error + 't"
where
  "run_blocks T L self [] hidden_states attention_mask encoder_hidden_states
       encoder_attention_mask timestep post_patch_height post_patch_width = Inr hidden_states"
| "run_blocks T L self (block # blocks) hidden_states attention_mask encoder_hidden_states
       encoder_attention_mask timestep post_patch_height post_patch_width =
     bindE (call_block_forward T L (create_block_forward T L self timestep block)
              (hidden_states, attention_mask, Some encoder_hidden_states,
               encoder_attention_mask, timestep, post_patch_height, post_patch_width))
       (\<lambda>hidden_states.
     run_blocks T L self blocks hidden_states attention_mask encoder_hidden_states
       encoder_attention_mask timestep post_patch_height post_patch_width)"

text \<open>
  The head of \<open>forward\<close>: each of the two masks, when given and 2-D, becomes
  \<open>((1 - mask.to(dtype)) * -10000.0).unsqueeze(1)\<close>.
\<close>

definition forward_masks ::
    "'t tensor_ops \<Rightarrow> 't option \<Rightarrow> 't option \<Rightarrow> error + ('t option \<times> 't option)"
where
  "forward_masks T encoder_attention_mask attention_mask =
     bindE (case attention_mask of
              None \<Rightarrow> Inr None
            | Some m \<Rightarrow>
                if length (t_shape T m) = 2
                then bindE (t_unsqueeze T (t_mul_scalar T (t_rsub_scalar T 1 (to_dtype m)) (- 10000)) 1)
                       (\<lambda>b. Inr (Some b))
                else Inr (Some m)) (\<lambda>attention_mask.
     bindE (case encoder_attention_mask of
              None \<Rightarrow> Inr None
            | Some m \<Rightarrow>
                if length (t_shape T m) = 2
                then bindE (t_unsqueeze T (t_mul_scalar T (t_rsub_scalar T 1 (to_dtype m)) (- 10000)) 1)
                       (\<lambda>b. Inr (Some b))
                else Inr (Some m)) (\<lambda>encoder_attention_mask.
     Inr (encoder_attention_mask, attention_mask)))"

fun unpack4 :: "'a list \<Rightarrow> error + ('a \<times> 'a \<times> 'a \<times> 'a)" where
  "unpack4 [a, b, c, d] = Inr (a, b, c, d)"
| "unpack4 xs = Inl ValueError"

definition floordiv :: "nat \<Rightarrow> nat \<Rightarrow> error + nat" where
  "floordiv a b = (if b = 0 then Inl ZeroDivisionError else Inr (a div b))"

text \<open>
  \<open>forward\<close> returns the tensor \<open>output\<close>; wrapping it in a tuple or in
  \<open>Transformer2DModelOutput\<close> (\<open>return_dict\<close>) is left out. \<open>view\<close> on the projected caption is
  a \<open>reshape\<close>. The flag that \<open>create_block_forward\<close> may set on a block is not carried over
  to later calls: \<open>SanaTransformerBlock.forward\<close> does not read it.
\<close>

definition SanaTransformer2DModel_forward ::
    "'t tensor_ops \<Rightarrow> 't layers \<Rightarrow> 't SanaTransformer2DModel \<Rightarrow> 't \<Rightarrow> 't \<Rightarrow> 't \<Rightarrow> 't option
       \<Rightarrow> 't option \<Rightarrow> error + 't"
where
  "SanaTransformer2DModel_forward T L self hidden_states encoder_hidden_states timestep
       encoder_attention_mask attention_mask =
     bindE (forward_masks T encoder_attention_mask attention_mask)
       (\<lambda>(encoder_attention_mask, attention_mask).
     bindE (unpack4 (t_shape T hidden_states)) (\<lambda>(batch_size, num_channels, height, width).
     let p = patch_size (config self) in
     bindE (floordiv height p) (\<lambda>post_patch_height.
     bindE (floordiv width p) (\<lambda>post_patch_width.
     bindE (l_patch_embed L (patch_embed self) hidden_states) (\<lambda>hidden_states.
     bindE (l_time_embed L (time_embed self) timestep batch_size)
       (\<lambda>(timestep, embedded_timestep).
     bindE (l_caption_projection L (caption_projection self) encoder_hidden_states)
       (\<lambda>encoder_hidden_states.
     bindE (shape_last (t_shape T hidden_states)) (\<lambda>inner.
     bindE (t_reshape T encoder_hidden_states [int batch_size, -1, int inner])
       (\<lambda>encoder_hidden_states.
     bindE (l_rms_norm L (caption_norm self) encoder_hidden_states) (\<lambda>encoder_hidden_states.
     bindE (run_blocks T L self (transformer_blocks self) hidden_states attention_mask
              encoder_hidden_states encoder_attention_mask timestep post_patch_height
              post_patch_width) (\<lambda>hidden_states.
     bindE (t_unsqueeze T (scale_shift_table self) 0) (\<lambda>table.
     bindE (t_unsqueeze T embedded_timestep 1) (\<lambda>embedded.
     bindE (t_add T table (to_dtype embedded)) (\<lambda>s.
     bindE (t_chunk T s 2 1) (\<lambda>chunks.
     bindE (unpack2 chunks) (\<lambda>(shift, scale).
     bindE (l_layer_norm L (norm_out self) hidden_states) (\<lambda>hidden_states.
     bindE (t_mul T hidden_states (t_add_scalar T 1 scale)) (\<lambda>hidden_states.
     bindE (t_add T hidden_states shift) (\<lambda>hidden_states.
     bindE (l_linear L (proj_out self) hidden_states) (\<lambda>hidden_states.
     bindE (t_reshape T hidden_states
              [int batch_size, int post_patch_height, int post_patch_width,
               int (patch_size (config self)), int (patch_size (config self)), -1])
       (\<lambda>hidden_states.
     bindE (t_permute T hidden_states [0, 5, 1, 3, 2, 4]) (\<lambda>hidden_states.
     t_reshape T hidden_states
       [int batch_size, -1, int (post_patch_height * p), int (post_patch_width * p)]
     ))))))))))))))))))))))"


section \<open>The framework at the level of shapes\<close>

text \<open>
  One instance of the two records keeps of every tensor its shape only. It records when the
  library operations raise and what shape they return; the contracts are those of PyTorch
  and of the diffusers layers the module imports.
\<close>

definition reshape_shape :: "nat list \<Rightarrow> int list \<Rightarrow> error + nat list" where
  "reshape_shape s args =
     (let numel = int (prod_list s);
          known = prod_list (filter (\<lambda>a. a \<noteq> - 1) args) in
      if \<exists>a \<in> set args. a < - 1 then Inl RuntimeError
      else if length (filter (\<lambda>a. a = - 1) args) > 1 then Inl RuntimeError
      else if - 1 \<notin> set args
        then (if known = numel then Inr (map nat args) else Inl RuntimeError)
      else if known = 0 then Inl RuntimeError
      else if numel mod known \<noteq> 0 then Inl RuntimeError
      else Inr (map (\<lambda>a. if a = - 1 then nat (numel div known) else nat a) args))"

definition permute_shape :: "nat list \<Rightarrow> nat list \<Rightarrow> error + nat list" where
  "permute_shape s dims =
     (if sort dims = [0..<length s] then Inr (map (\<lambda>d. s ! d) dims) else Inl RuntimeError)"

definition wrap_dim :: "nat \<Rightarrow> int \<Rightarrow> error + nat" where
  "wrap_dim n d =
     (let d' = (if d < 0 then d + int n else d) in
      if 0 \<le> d' \<and> d' < int n then Inr (nat d') else Inl IndexError)"

definition movedim_shape :: "nat list \<Rightarrow> int \<Rightarrow> int \<Rightarrow> error + nat list" where
  "movedim_shape s src dst =
     bindE (wrap_dim (length s) src) (\<lambda>i.
     bindE (wrap_dim (length s) dst) (\<lambda>j.
     let rest = take i s @ drop (Suc i) s in
     Inr (take j rest @ [s ! i] @ drop j rest)))"

definition unsqueeze_shape :: "nat list \<Rightarrow> nat \<Rightarrow> error + nat list" where
  "unsqueeze_shape s d =
     (if d \<le> length s then Inr (take d s @ [1] @ drop d s) else Inl IndexError)"

definition unflatten_shape :: "nat list \<Rightarrow> nat \<Rightarrow> nat list \<Rightarrow> error + nat list" where
  "unflatten_shape s d sizes =
     (if \<not> d < length s then Inl IndexError
      else if prod_list sizes \<noteq> s ! d then Inl RuntimeError
      else Inr (take d s @ sizes @ drop (Suc d) s))"

definition flatten_shape :: "nat list \<Rightarrow> nat \<Rightarrow> nat \<Rightarrow> error + nat list" where
  "flatten_shape s a b =
     (if \<not> (a < length s \<and> b < length s) then Inl IndexError
      else if b < a then Inl RuntimeError
      else Inr (take a s @ [prod_list (take (Suc b - a) (drop a s))] @ drop (Suc b) s))"

text \<open>
  \<open>torch.chunk(n, dim)\<close> cuts pieces of \<open>ceil(size / n)\<close> entries along \<open>dim\<close>, the last one
  possibly shorter, so it can return fewer than \<open>n\<close> pieces; an axis of size 0 gives \<open>n\<close>
  empty pieces.
\<close>

definition chunk_sizes :: "nat \<Rightarrow> nat \<Rightarrow> nat list" where
  "chunk_sizes sz n =
     (let split_size = (sz + n - 1) div n in
      if split_size = 0 then replicate n 0
      else let num = max ((sz + split_size - 1) div split_size) 1 in
           map (\<lambda>i. min split_size (sz - i * split_size)) [0..<num])"

definition chunk_shape :: "nat list \<Rightarrow> nat \<Rightarrow> nat \<Rightarrow> error + nat list list" where
  "chunk_shape s n d =
     (if \<not> d < length s then Inl IndexError
      else if n = 0 then Inl RuntimeError
      else Inr (map (\<lambda>k. s[d := k]) (chunk_sizes (s ! d) n)))"

fun broadcast_rev :: "nat list \<Rightarrow> nat list \<Rightarrow> error + nat list" where
  "broadcast_rev [] ys = Inr ys"
| "broadcast_rev xs [] = Inr xs"
| "broadcast_rev (x # xs) (y # ys) =
     (if x = y \<or> y = 1 then bindE (broadcast_rev xs ys) (\<lambda>r. Inr (x # r))
      else if x = 1 then bindE (broadcast_rev xs ys) (\<lambda>r. Inr (y # r))
      else Inl RuntimeError)"

definition broadcast_shapes :: "nat list \<Rightarrow> nat list \<Rightarrow> error + nat list" where
  "broadcast_shapes a b = bindE (broadcast_rev (rev a) (rev b)) (\<lambda>r. Inr (rev r))"

definition shape_ops :: "nat list tensor_ops" where
  "shape_ops =
     \<lparr>t_shape = (\<lambda>s. s),
      t_reshape = reshape_shape,
      t_permute = permute_shape,
      t_movedim = movedim_shape,
      t_unsqueeze = unsqueeze_shape,
      t_unflatten = unflatten_shape,
      t_flatten = flatten_shape,
      t_chunk = chunk_shape,
      t_add = broadcast_shapes,
      t_mul = broadcast_shapes,
      t_add_scalar = (\<lambda>c s. s),
      t_rsub_scalar = (\<lambda>c s. s),
      t_mul_scalar = (\<lambda>s c. s),
      t_div_sqrt = (\<lambda>s n. s),
      t_remainder_eq0 = (\<lambda>s k. s)\<rparr>"

text \<open>
  \<open>PatchEmbed.forward\<close> with \<open>pos_embed_type=None\<close>: a convolution with kernel and stride
  \<open>patch_size\<close>, then \<open>flatten(2).transpose(1, 2)\<close>.
\<close>

definition patch_embed_shape :: "patch_embed \<Rightarrow> nat list \<Rightarrow> error + nat list" where
  "patch_embed_shape pe s =
     (case s of
        [b, c, h, w] \<Rightarrow>
          if c = pe_in_channels pe \<and> 0 < pe_patch_size pe
             \<and> pe_patch_size pe \<le> h \<and> pe_patch_size pe \<le> w
          then Inr [b, ((h - pe_patch_size pe) div pe_patch_size pe + 1)
                        * ((w - pe_patch_size pe) div pe_patch_size pe + 1), pe_embed_dim pe]
          else Inl RuntimeError
      | _ \<Rightarrow> Inl RuntimeError)"

text \<open>
  \<open>AdaLayerNormSingle(inner_dim).forward(timestep, batch_size=..., hidden_dtype=...)\<close> returns
  the pair \<open>(linear(silu(emb)), emb)\<close>; the sinusoidal embedding asserts a 1-D \<open>timestep\<close>.
\<close>

definition time_embed_shape :: "nat \<Rightarrow> nat list \<Rightarrow> nat \<Rightarrow> error + (nat list \<times> nat list)" where
  "time_embed_shape inner_dim s batch_size =
     (case s of [n] \<Rightarrow> Inr ([n, 6 * inner_dim], [n, inner_dim]) | _ \<Rightarrow> Inl AssertionError)"

definition linear_shape :: "linear \<Rightarrow> nat list \<Rightarrow> error + nat list" where
  "linear_shape l s =
     (if s \<noteq> [] \<and> last s = lin_in_features l then Inr (butlast s @ [lin_out_features l])
      else Inl RuntimeError)"

definition caption_projection_shape :: "text_projection \<Rightarrow> nat list \<Rightarrow> error + nat list" where
  "caption_projection_shape tp s =
     (if s \<noteq> [] \<and> last s = tp_in_features tp then Inr (butlast s @ [tp_hidden_size tp])
      else Inl RuntimeError)"

definition rms_norm_shape :: "rms_norm \<Rightarrow> nat list \<Rightarrow> error + nat list" where
  "rms_norm_shape r s =
     (if rms_elementwise_affine r then broadcast_shapes s [rms_dim r] else Inr s)"

definition layer_norm_shape :: "layer_norm \<Rightarrow> nat list \<Rightarrow> error + nat list" where
  "layer_norm_shape l s =
     (if s \<noteq> [] \<and> last s = ln_dim l then Inr s else Inl RuntimeError)"

definition conv_out :: "conv2d \<Rightarrow> nat \<Rightarrow> nat" where
  "conv_out c n = (n + 2 * conv_padding c - conv_kernel_size c) div conv_stride c + 1"

definition conv2d_shape :: "conv2d \<Rightarrow> nat list \<Rightarrow> error + nat list" where
  "conv2d_shape c s =
     (case s of
        [b, ch, h, w] \<Rightarrow>
          if ch = conv_in_channels c \<and> 0 < conv_stride c
             \<and> conv_kernel_size c \<le> h + 2 * conv_padding c
             \<and> conv_kernel_size c \<le> w + 2 * conv_padding c
          then Inr [b, conv_out_channels c, conv_out c h, conv_out c w]
          else Inl RuntimeError
      | [ch, h, w] \<Rightarrow>
          if ch = conv_in_channels c \<and> 0 < conv_stride c
             \<and> conv_kernel_size c \<le> h + 2 * conv_padding c
             \<and> conv_kernel_size c \<le> w + 2 * conv_padding c
          then Inr [conv_out_channels c, conv_out c h, conv_out c w]
          else Inl RuntimeError
      | _ \<Rightarrow> Inl RuntimeError)"

text \<open>
  \<open>Attention.forward\<close> hands its arguments to the processor. Both processors need a 3-D
  \<open>[batch, tokens, query_dim]\<close> input and return that shape; the keys and values come from
  \<open>encoder_hidden_states\<close> when given. \<open>SanaLinearAttnProcessor2_0\<close> does not read
  \<open>attention_mask\<close>; \<open>AttnProcessor2_0\<close> passes it through \<open>prepare_attention_mask\<close> (pad
  the last axis unless it has the key length, repeat per head, view as
  \<open>[batch, heads, -1, keys]\<close>) and adds it to the \<open>[batch, heads, tokens, keys]\<close> scores.
\<close>

definition attention_mask_ok :: "nat \<Rightarrow> nat \<Rightarrow> nat \<Rightarrow> nat \<Rightarrow> nat list \<Rightarrow> bool" where
  "attention_mask_ok heads b n m ms =
     (2 \<le> length ms \<and>
      (let x = hd ms; z = last ms; y = prod_list (butlast (tl ms));
           z' = (if z \<noteq> m then z + m else z);
           x' = (if x < b * heads then x * heads else x) in
       0 < b * heads * z' \<and> (x' * y) mod (b * heads) = 0
       \<and> ((x' * y) div (b * heads) = n \<or> (x' * y) div (b * heads) = 1)
       \<and> (z' = m \<or> z' = 1)))"

definition attention_shape ::
    "attention \<Rightarrow> nat list \<Rightarrow> nat list option \<Rightarrow> nat list option \<Rightarrow> error + nat list"
where
  "attention_shape a s encoder_hidden_states attention_mask =
     (case s of
        [b, n, q] \<Rightarrow>
          if q \<noteq> attn_query_dim a \<or> attn_heads a = 0 then Inl RuntimeError
          else
            (case (case encoder_hidden_states of None \<Rightarrow> s | Some e \<Rightarrow> e) of
               [b', m, c] \<Rightarrow>
                 if b' \<noteq> b then Inl RuntimeError
                 else if c \<noteq> (case (encoder_hidden_states, attn_cross_attention_dim a) of
                                  (Some e, Some cd) \<Rightarrow> cd
                                | _ \<Rightarrow> attn_query_dim a) then Inl RuntimeError
                 else
                   (case (attn_processor a, attention_mask) of
                      (AttnProcessor2_0, Some ms) \<Rightarrow>
                        if attention_mask_ok (attn_heads a) b n m ms then Inr [b, n, q]
                        else Inl RuntimeError
                    | _ \<Rightarrow> Inr [b, n, q])
             | _ \<Rightarrow> Inl RuntimeError)
      | _ \<Rightarrow> Inl RuntimeError)"

definition shape_layers :: "bool \<Rightarrow> bool \<Rightarrow> nat list layers" where
  "shape_layers grad_enabled torch_old =
     \<lparr>l_patch_embed = patch_embed_shape,
      l_time_embed = time_embed_shape,
      l_caption_projection = caption_projection_shape,
      l_rms_norm = rms_norm_shape,
      l_layer_norm = layer_norm_shape,
      l_attention = attention_shape,
      l_conv2d = conv2d_shape,
      l_silu = (\<lambda>s. s),
      l_linear = linear_shape,
      l_randn = (\<lambda>s. s),
      l_checkpoint = (\<lambda>use_reentrant f x. f x),
      l_is_grad_enabled = grad_enabled,
      l_torch_le_1_11_0 = torch_old\<rparr>"


section \<open>The tensor operations on values\<close>

text \<open>
  A second instance of \<open>tensor_ops\<close> keeps the entries too: a tensor is its shape and its
  entries in row-major order, as a contiguous PyTorch tensor stores them. Operations that
  only change the view keep the entries; the others read the source at a computed index.
  Entries are real numbers: rounding and dtypes are not modelled.
\<close>

record tensor =
  tshape :: "nat list"
  tdata :: "real list"

fun indices :: "nat list \<Rightarrow> nat list list" where
  "indices [] = [[]]"
| "indices (n # s) = concat (map (\<lambda>i. map ((#) i) (indices s)) [0..<n])"

fun offset :: "nat list \<Rightarrow> nat list \<Rightarrow> nat" where
  "offset (n # s) (i # idx) = i * prod_list s + offset s idx"
| "offset s idx = 0"

definition entry :: "tensor \<Rightarrow> nat list \<Rightarrow> real" where
  "entry t idx = tdata t ! offset (tshape t) idx"

definition gather :: "nat list \<Rightarrow> (nat list \<Rightarrow> real) \<Rightarrow> tensor" where
  "gather s f = \<lparr>tshape = s, tdata = map f (indices s)\<rparr>"

definition with_shape :: "tensor \<Rightarrow> error + nat list \<Rightarrow> error + tensor" where
  "with_shape t r = bindE r (\<lambda>s. Inr (t\<lparr>tshape := s\<rparr>))"

definition pointwise :: "(real \<Rightarrow> real) \<Rightarrow> tensor \<Rightarrow> tensor" where
  "pointwise f t = t\<lparr>tdata := map f (tdata t)\<rparr>"

fun position :: "nat \<Rightarrow> nat list \<Rightarrow> nat" where
  "position j [] = 0"
| "position j (x # xs) = (if x = j then 0 else Suc (position j xs))"

definition permute_values :: "tensor \<Rightarrow> nat list \<Rightarrow> error + tensor" where
  "permute_values t dims =
     bindE (permute_shape (tshape t) dims) (\<lambda>s.
     Inr (gather s (\<lambda>idx. entry t (map (\<lambda>j. idx ! position j dims) [0..<length dims]))))"

definition movedim_values :: "tensor \<Rightarrow> int \<Rightarrow> int \<Rightarrow> error + tensor" where
  "movedim_values t src dst =
     bindE (wrap_dim (length (tshape t)) src) (\<lambda>i.
     bindE (wrap_dim (length (tshape t)) dst) (\<lambda>j.
     let rest = filter (\<lambda>k. k \<noteq> i) [0..<length (tshape t)] in
     permute_values t (take j rest @ [i] @ drop j rest)))"

definition broadcast_index :: "nat list \<Rightarrow> nat list \<Rightarrow> nat list" where
  "broadcast_index s idx =
     map2 (\<lambda>n i. if n = 1 then 0 else i) s (drop (length idx - length s) idx)"

definition broadcast_values :: "(real \<Rightarrow> real \<Rightarrow> real) \<Rightarrow> tensor \<Rightarrow> tensor \<Rightarrow> error + tensor" where
  "broadcast_values f x y =
     bindE (broadcast_shapes (tshape x) (tshape y)) (\<lambda>s.
     Inr (gather s (\<lambda>idx. f (entry x (broadcast_index (tshape x) idx))
                            (entry y (broadcast_index (tshape y) idx)))))"

fun starts :: "nat \<Rightarrow> nat list \<Rightarrow> nat list" where
  "starts acc [] = []"
| "starts acc (n # ns) = acc # starts (acc + n) ns"

definition chunk_values :: "tensor \<Rightarrow> nat \<Rightarrow> nat \<Rightarrow> error + tensor list" where
  "chunk_values t n d =
     bindE (chunk_shape (tshape t) n d) (\<lambda>shapes.
     Inr (map2 (\<lambda>s' start. gather s' (\<lambda>idx. entry t (idx[d := idx ! d + start])))
            shapes (starts 0 (map (\<lambda>s'. s' ! d) shapes))))"

definition value_ops :: "tensor tensor_ops" where
  "value_ops =
     \<lparr>t_shape = tshape,
      t_reshape = (\<lambda>t args. with_shape t (reshape_shape (tshape t) args)),
      t_permute = permute_values,
      t_movedim = movedim_values,
      t_unsqueeze = (\<lambda>t d. with_shape t (unsqueeze_shape (tshape t) d)),
      t_unflatten = (\<lambda>t d sizes. with_shape t (unflatten_shape (tshape t) d sizes)),
      t_flatten = (\<lambda>t a b. with_shape t (flatten_shape (tshape t) a b)),
      t_chunk = chunk_values,
      t_add = broadcast_values (+),
      t_mul = broadcast_values (*),
      t_add_scalar = (\<lambda>c. pointwise (\<lambda>v. c + v)),
      t_rsub_scalar = (\<lambda>c. pointwise (\<lambda>v. c - v)),
      t_mul_scalar = (\<lambda>t c. pointwise (\<lambda>v. v * c) t),
      t_div_sqrt = (\<lambda>t n. pointwise (\<lambda>v. v / sqrt (real n)) t),
      t_remainder_eq0 = (\<lambda>t k. pointwise (\<lambda>v. if frac (v / real_of_int k) = 0 then 1 else 0) t)\<rparr>"

text \<open>
  For stating the results: \<open>torch.cat(ts, dim=d)\<close> of tensors that agree on the other axes,
  and the bias the specification asks for from a keep/discard mask.
\<close>

fun locate :: "nat list \<Rightarrow> nat \<Rightarrow> nat \<times> nat" where
  "locate [] i = (0, i)"
| "locate (n # ns) i =
     (if i < n then (0, i) else (case locate ns (i - n) of (k, j) \<Rightarrow> (Suc k, j)))"

definition cat_values :: "tensor list \<Rightarrow> nat \<Rightarrow> tensor" where
  "cat_values ts d =
     gather ((tshape (hd ts))[d := sum_list (map (\<lambda>t. tshape t ! d) ts)])
       (\<lambda>idx. case locate (map (\<lambda>t. tshape t ! d) ts) (idx ! d) of
                 (k, j) \<Rightarrow> entry (ts ! k) (idx[d := j]))"



section \<open>Auxiliary definitions for the statements\<close>

text \<open>A small configuration with two blocks, and the number of blocks a forward pass wraps in
  \<open>checkpoint\<close>.\<close>

definition example_config :: sana_config where
  "example_config = \<lparr>in_channels = 4, out_channels = Some 3, num_attention_heads = 2, attention_head_dim = 4,
     num_layers = 2, num_cross_attention_heads = 2, cross_attention_head_dim = 4,
     cross_attention_dim = Some 8, caption_channels = 16, mlp_ratio = 5/2, attention_bias = False,
     sample_size = 8, patch_size = 2, norm_elementwise_affine = False\<rparr>"

fun is_checkpointed :: "'t block_forward \<Rightarrow> bool" where
  "is_checkpointed (Checkpointed b) = True"
| "is_checkpointed (Eager b) = False"

definition checkpointed_blocks ::
    "'t tensor_ops \<Rightarrow> 't layers \<Rightarrow> 't SanaTransformer2DModel \<Rightarrow> 't \<Rightarrow> nat"
where
  "checkpointed_blocks T L self timestep =
     length (filter is_checkpointed
       (map (create_block_forward T L self timestep) (transformer_blocks self)))"


section \<open>Construction, checkpointing and the interval\<close>

lemma bindE_simps [simp]:
  "bindE (Inl e) f = Inl e"
  "bindE (Inr x) f = f x"
  by (simp_all add: bindE_def)

lemma bindE_cong [fundef_cong]:
  "m = m' \<Longrightarrow> (\<And>x. m' = Inr x \<Longrightarrow> f x = f' x) \<Longrightarrow> bindE m f = bindE m' f'"
  by (cases m') (simp_all add: bindE_def)

text \<open>
  Claim C10. When \<open>out_channels\<close> is \<open>None\<close> or \<open>0\<close>, a successfully constructed model has a
  final projection of width \<open>patch_size * patch_size * in_channels\<close>.
\<close>

theorem out_channels_falsy:
  assumes "out_channels cfg = None \<or> out_channels cfg = Some 0"
    and "SanaTransformer2DModel_init T L cfg = Inr self"
  shows "lin_out_features (proj_out self) = patch_size cfg * patch_size cfg * in_channels cfg"
proof -
  from assms(1) have "py_or (out_channels cfg) (in_channels cfg) = in_channels cfg"
    by (auto simp: py_or_def)
  with assms(2) show ?thesis
    by (auto simp: SanaTransformer2DModel_init_def Let_def bindE_def split: sum.splits)
qed

lemma ex_init: "\<exists>self. SanaTransformer2DModel_init shape_ops (shape_layers True False)
           (example_config\<lparr>out_channels := None\<rparr>) = Inr self"
  by (simp add: SanaTransformer2DModel_init_def example_config_def Let_def PatchEmbed_def
        SanaTransformerBlock_init_def GLUMBConv_init_def Conv2d_def py_int_def numeral_2_eq_2)


theorem out_channels_falsy_witness:
  "(out_channels (example_config\<lparr>out_channels := None\<rparr>) = None
      \<or> out_channels (example_config\<lparr>out_channels := None\<rparr>) = Some 0)
   \<and> (\<exists>self. SanaTransformer2DModel_init shape_ops (shape_layers True False)
                 (example_config\<lparr>out_channels := None\<rparr>) = Inr self
          \<and> lin_out_features (proj_out self) = 2 * 2 * 4)"
proof -
  obtain self where i: "SanaTransformer2DModel_init shape_ops (shape_layers True False)
           (example_config\<lparr>out_channels := None\<rparr>) = Inr self"
    using ex_init by blast
  have a: "out_channels (example_config\<lparr>out_channels := None\<rparr>) = None
      \<or> out_channels (example_config\<lparr>out_channels := None\<rparr>) = Some 0" by simp
  from out_channels_falsy[OF a i] have "lin_out_features (proj_out self) = 2 * 2 * 4"
    by (simp add: example_config_def)
  with a i show ?thesis by blast
qed

lemma block_without_cross_attention:
  "blk_attn2 self = None \<Longrightarrow>
     SanaTransformerBlock_forward T L self hidden_states attention_mask encoder_hidden_states
       encoder_attention_mask timestep height width \<noteq> Inr y"
  by (auto simp: SanaTransformerBlock_forward_def bindE_def Let_def split: sum.splits prod.splits)

lemma create_block_forward_checkpointed:
  "gradient_checkpointing self \<Longrightarrow> l_is_grad_enabled L \<Longrightarrow>
     \<exists>b. create_block_forward T L self timestep block = Checkpointed b"
  by (simp add: create_block_forward_def Let_def split: option.splits)

lemma block_forward_ignores_flag:
  "SanaTransformerBlock_forward T L (block\<lparr>blk_gradient_checkpointing := v\<rparr>) =
   SanaTransformerBlock_forward T L block"
  by (intro ext) (simp add: SanaTransformerBlock_forward_def)

lemma block_call_ignores_flag:
  "SanaTransformerBlock_call T L (set_gradient_checkpointing_block block v) =
   SanaTransformerBlock_call T L block"
  by (rule ext) (auto simp: set_gradient_checkpointing_block_def block_forward_ignores_flag)

lemma call_block_forward_interval:
  "call_block_forward T L (create_block_forward T L (self\<lparr>gradient_checkpointing_interval := i\<rparr>) timestep block) =
   call_block_forward T L (create_block_forward T L (self\<lparr>gradient_checkpointing_interval := j\<rparr>) timestep block)"
  by (rule ext)
     (simp add: call_block_forward_def create_block_forward_def Let_def block_call_ignores_flag
           split: option.splits)

lemma run_blocks_interval:
  "run_blocks T L (self\<lparr>gradient_checkpointing_interval := i\<rparr>) blocks hidden_states attention_mask
       encoder_hidden_states encoder_attention_mask timestep h w =
   run_blocks T L (self\<lparr>gradient_checkpointing_interval := j\<rparr>) blocks hidden_states attention_mask
       encoder_hidden_states encoder_attention_mask timestep h w"
proof (induction blocks arbitrary: hidden_states)
  case Nil
  show ?case by simp
next
  case (Cons block blocks)
  show ?case
    by (simp add: call_block_forward_interval[where i=i and j=j] Cons.IH cong: bindE_cong)
qed


text \<open>
  Claim C7. For any tensor and layer kernels, any model and any inputs, the result of
  \<open>forward\<close> is the same whatever the gradient-checkpointing interval is set to, unset
  included: the interval only ever reaches an attribute that the block's \<open>forward\<close> does
  not read.
\<close>

theorem forward_interval_independent:
  "SanaTransformer2DModel_forward T L (self\<lparr>gradient_checkpointing_interval := i\<rparr>)
       hidden_states encoder_hidden_states timestep encoder_attention_mask attention_mask =
   SanaTransformer2DModel_forward T L (self\<lparr>gradient_checkpointing_interval := j\<rparr>)
       hidden_states encoder_hidden_states timestep encoder_attention_mask attention_mask"
  by (simp add: SanaTransformer2DModel_forward_def run_blocks_interval[where i=i and j=j])

lemma checkpointed_blocks_all:
  assumes "gradient_checkpointing self" and "l_is_grad_enabled L"
  shows "checkpointed_blocks T L (self\<lparr>gradient_checkpointing_interval := i\<rparr>) timestep
           = length (transformer_blocks self)"
proof -
  have "is_checkpointed (create_block_forward T L (self\<lparr>gradient_checkpointing_interval := i\<rparr>) timestep b)" for b
    using assms by (simp add: create_block_forward_def Let_def split: option.splits)
  then show ?thesis by (simp add: checkpointed_blocks_def)
qed

lemma example_init:
  "SanaTransformer2DModel_init shape_ops (shape_layers True False) example_config = Inr self
   \<Longrightarrow> length (transformer_blocks self) = 2"
  by (auto simp add: SanaTransformer2DModel_init_def example_config_def Let_def PatchEmbed_def
        SanaTransformerBlock_init_def GLUMBConv_init_def Conv2d_def py_int_def numeral_2_eq_2)

text \<open>
  Claim C3 fails on the code. With checkpointing and gradients enabled, the two-block example
  model wraps both blocks in \<open>checkpoint\<close> for the interval unset, 0, 1, 2 and 3 alike: the
  interval does not determine how many blocks are checkpointed.
\<close>

theorem checkpoint_interval_ignored:
  "map_sum id
     (\<lambda>self. map (\<lambda>i. checkpointed_blocks shape_ops (shape_layers True False)
                        (self\<lparr>gradient_checkpointing := True, gradient_checkpointing_interval := i\<rparr>)
                        [1, 48])
                [None, Some 0, Some 1, Some 2, Some 3])
     (SanaTransformer2DModel_init shape_ops (shape_layers True False) example_config)
   = Inr [2, 2, 2, 2, 2]"
proof (cases "SanaTransformer2DModel_init shape_ops (shape_layers True False) example_config")
  case (Inl e)
  then show ?thesis
    by (simp add: SanaTransformer2DModel_init_def example_config_def Let_def PatchEmbed_def
        SanaTransformerBlock_init_def GLUMBConv_init_def Conv2d_def py_int_def numeral_2_eq_2)
next
  case (Inr self)
  have "checkpointed_blocks shape_ops (shape_layers True False)
          (self\<lparr>gradient_checkpointing := True, gradient_checkpointing_interval := i\<rparr>) [1, 48] = 2" for i
    using checkpointed_blocks_all[of "self\<lparr>gradient_checkpointing := True\<rparr>" "shape_layers True False" shape_ops i "[1, 48]"]
      example_init[OF Inr]
    by (simp add: shape_layers_def)
  then show ?thesis using Inr by simp
qed

section \<open>A model without cross-attention\<close>

text \<open>
  Claim C1 fails on the code. With \<open>cross_attention_dim = None\<close> the block constructor
  assigns neither \<open>attn2\<close> nor \<open>norm2\<close>, and \<open>forward\<close> reads both: the example model raises
  \<open>AttributeError\<close> at \<open>self.attn2\<close> instead of returning a tensor.
\<close>

theorem forward_without_cross_attention:
  "bindE (SanaTransformer2DModel_init shape_ops (shape_layers True False)
            (example_config\<lparr>cross_attention_dim := None\<rparr>))
     (\<lambda>self. SanaTransformer2DModel_forward shape_ops (shape_layers True False) self
                [1, 4, 8, 6] [1, 5, 16] [1] None None)
   = Inl (AttributeError ''attn2'')"
  by code_simp


section \<open>GLUMBConv: structure and shapes\<close>

lemma chunk_sizes_half: "0 < k \<Longrightarrow> chunk_sizes (2 * k) 2 = [k, k]"
proof -
  assume k: "0 < k"
  have a: "(2 * k + 2 - 1) div 2 = k" by simp
  have b: "(2 * k + k - 1) div k = 2"
    by (rule div_nat_eqI) (use k in auto)
  have c: "[0..<2] = [0, 1]" by (simp add: upt_rec)
  show ?thesis
    unfolding chunk_sizes_def Let_def a b using k by (simp add: c)
qed

lemma broadcast_rev_same: "broadcast_rev s s = Inr s"
  by (induction s) simp_all

lemma broadcast_shapes_same: "broadcast_shapes s s = Inr s"
  by (simp add: broadcast_shapes_def broadcast_rev_same)


lemma GLUMBConv_init_success:
  assumes "GLUMBConv_init in_ch out_ch r nt res = Inr g"
  shows "0 < py_int (r * of_nat in_ch)"
    and "g = \<lparr>glu_norm_type = nt, glu_residual_connection = res,
          glu_conv_inverted =
            \<lparr>conv_in_channels = in_ch, conv_out_channels = 2 * nat (py_int (r * of_nat in_ch)),
             conv_kernel_size = 1, conv_stride = 1, conv_padding = 0, conv_groups = 1,
             conv_bias = True\<rparr>,
          glu_conv_depth =
            \<lparr>conv_in_channels = 2 * nat (py_int (r * of_nat in_ch)),
             conv_out_channels = 2 * nat (py_int (r * of_nat in_ch)),
             conv_kernel_size = 3, conv_stride = 1, conv_padding = 1,
             conv_groups = 2 * nat (py_int (r * of_nat in_ch)), conv_bias = True\<rparr>,
          glu_conv_point =
            \<lparr>conv_in_channels = nat (py_int (r * of_nat in_ch)), conv_out_channels = out_ch,
             conv_kernel_size = 1, conv_stride = 1, conv_padding = 0, conv_groups = 1,
             conv_bias = False\<rparr>,
          glu_norm = (if nt = Some ''rms_norm''
                      then Some \<lparr>rms_dim = out_ch, rms_elementwise_affine = True, rms_bias = True\<rparr>
                      else None)\<rparr>"
proof -
  let ?h = "py_int (r * of_nat in_ch)"
  from assms show pos: "0 < ?h"
    by (auto simp: GLUMBConv_init_def Let_def Conv2d_def split: if_splits)
  then have "nat (?h * 2) = 2 * nat ?h" by (simp add: nat_mult_distrib)
  with assms pos show "g = \<lparr>glu_norm_type = nt, glu_residual_connection = res,
          glu_conv_inverted =
            \<lparr>conv_in_channels = in_ch, conv_out_channels = 2 * nat (py_int (r * of_nat in_ch)),
             conv_kernel_size = 1, conv_stride = 1, conv_padding = 0, conv_groups = 1,
             conv_bias = True\<rparr>,
          glu_conv_depth =
            \<lparr>conv_in_channels = 2 * nat (py_int (r * of_nat in_ch)),
             conv_out_channels = 2 * nat (py_int (r * of_nat in_ch)),
             conv_kernel_size = 3, conv_stride = 1, conv_padding = 1,
             conv_groups = 2 * nat (py_int (r * of_nat in_ch)), conv_bias = True\<rparr>,
          glu_conv_point =
            \<lparr>conv_in_channels = nat (py_int (r * of_nat in_ch)), conv_out_channels = out_ch,
             conv_kernel_size = 1, conv_stride = 1, conv_padding = 0, conv_groups = 1,
             conv_bias = False\<rparr>,
          glu_norm = (if nt = Some ''rms_norm''
                      then Some \<lparr>rms_dim = out_ch, rms_elementwise_affine = True, rms_bias = True\<rparr>
                      else None)\<rparr>"
    by (auto simp: GLUMBConv_init_def Let_def Conv2d_def split: if_splits)
qed


lemma upt_2: "[0..<2] = [0, 1]" by (simp add: upt_rec)

lemma chunk_shape_half:
  "0 < k \<Longrightarrow> chunk_shape [b, 2 * k, h, w] 2 (Suc 0) = Inr [[b, k, h, w], [b, k, h, w]]"
  by (simp add: chunk_shape_def chunk_sizes_half)

lemma movedim_channel_last: "movedim_shape [b, c, h, w] 1 (- 1) = Inr [b, h, w, c]"
  by (simp add: movedim_shape_def wrap_dim_def)

lemma movedim_channel_last': "movedim_shape [b, c, h, w] (int (Suc 0)) (- 1) = Inr [b, h, w, c]"
  by (simp add: movedim_shape_def wrap_dim_def)

lemma movedim_channel_first: "movedim_shape [b, h, w, c] (- 1) 1 = Inr [b, c, h, w]"
  by (simp add: movedim_shape_def wrap_dim_def)

lemma broadcast_last: "broadcast_shapes [b, h, w, c] [c] = Inr [b, h, w, c]"
  by (simp add: broadcast_shapes_def)

lemma GLUMBConv_forward_shape:
  assumes "GLUMBConv_init in_ch out_ch r nt res = Inr g"
    and "0 < h" and "0 < w" and "res \<longrightarrow> in_ch = out_ch"
  shows "GLUMBConv_forward shape_ops (shape_layers ge old) g [b, in_ch, h, w] = Inr [b, out_ch, h, w]"
proof -
  let ?k = "nat (py_int (r * of_nat in_ch))"
  have k: "0 < ?k" using GLUMBConv_init_success(1)[OF assms(1)] by simp
  note g = GLUMBConv_init_success(2)[OF assms(1)]
  have h1: "Suc 0 \<le> h" "Suc 0 \<le> w" using assms(2,3) by simp_all
  show ?thesis
    apply (subst g)
    using h1 assms(4)
    apply (simp add: GLUMBConv_forward_def shape_ops_def shape_layers_def conv2d_shape_def
        conv_out_def chunk_shape_half[OF k] broadcast_shapes_same movedim_channel_last
        movedim_channel_first rms_norm_shape_def broadcast_last Let_def)
    done
qed





section \<open>Shapes through the forward pass\<close>

lemma filter_nonneg_keep: "\<forall>a \<in> set xs. (0::int) \<le> a \<Longrightarrow> filter (\<lambda>a. a \<noteq> - 1) xs = xs"
  by (induction xs) auto

lemma filter_nonneg_drop: "\<forall>a \<in> set xs. (0::int) \<le> a \<Longrightarrow> filter (\<lambda>a. a = - 1) xs = []"
  by (induction xs) auto

lemma reshape_infer:
  assumes nn: "\<forall>a \<in> set (pre @ post). (0::int) \<le> a"
    and pos: "0 < prod_list (pre @ post)"
    and numel: "int (prod_list s) = prod_list (pre @ post) * int k"
  shows "reshape_shape s (pre @ [- 1] @ post) = Inr (map nat pre @ [k] @ map nat post)"
proof -
  define K where "K = prod_list (pre @ post)"
  from nn have pre: "\<forall>a \<in> set pre. 0 \<le> a" and post: "\<forall>a \<in> set post. 0 \<le> a" by auto
  have f1: "prod_list (filter (\<lambda>a. a \<noteq> - 1) (pre @ [- 1] @ post)) = K"
    using filter_nonneg_keep[OF pre] filter_nonneg_keep[OF post] by (simp add: K_def)
  have f2: "length (filter (\<lambda>a. a = - 1) (pre @ [- 1] @ post)) = 1"
    using filter_nonneg_drop[OF pre] filter_nonneg_drop[OF post] by simp
  have no_less: "\<not> (\<exists>a \<in> set (pre @ [- 1] @ post). a < - 1)"
    using pre post by fastforce
  have mem: "- 1 \<in> set (pre @ [- 1] @ post)" by simp
  have ne: "K \<noteq> 0" using pos unfolding K_def by linarith
  have d: "int (prod_list s) div K = int k"
    unfolding numel K_def[symmetric] by (rule nonzero_mult_div_cancel_left[OF ne])
  have m: "int (prod_list s) mod K = 0"
    unfolding numel K_def[symmetric] by simp
  have mp: "map (\<lambda>a. if a = - 1 then nat (int k) else nat a) (pre @ [- 1] @ post)
              = map nat pre @ [k] @ map nat post"
    using pre post by (auto intro!: map_cong)
  show ?thesis
    unfolding reshape_shape_def Let_def f1 f2 d
    by (simp only: no_less mem ne m mp if_False if_True not_True_eq_False simp_thms less_irrefl)
qed

lemma reshape_timestep:
  "0 < b \<Longrightarrow> reshape_shape [b, 6 * d] [int b, 6, - 1] = Inr [b, 6, d]"
  using reshape_infer[of "[int b, 6]" "[]" "[b, 6 * d]" d] by simp

lemma reshape_caption:
  "0 < b \<Longrightarrow> 0 < d \<Longrightarrow> reshape_shape [b, m, d] [int b, - 1, int d] = Inr [b, m, d]"
  using reshape_infer[of "[int b]" "[int d]" "[b, m, d]" m] by (simp add: mult.commute)

lemma reshape_patches:
  "0 < b \<Longrightarrow> 0 < H \<Longrightarrow> 0 < W \<Longrightarrow> 0 < p \<Longrightarrow>
   reshape_shape [b, H * W, p * p * oc] [int b, int H, int W, int p, int p, - 1]
     = Inr [b, H, W, p, p, oc]"
  using reshape_infer[of "[int b, int H, int W, int p, int p]" "[]" "[b, H * W, p * p * oc]" oc]
  by (simp add: algebra_simps)

lemma reshape_image:
  "0 < b \<Longrightarrow> 0 < H \<Longrightarrow> 0 < W \<Longrightarrow> 0 < p \<Longrightarrow>
   reshape_shape [b, oc, H, p, W, p] [int b, - 1, int (H * p), int (W * p)]
     = Inr [b, oc, H * p, W * p]"
  using reshape_infer[of "[int b]" "[int (H * p), int (W * p)]" "[b, oc, H, p, W, p]" oc]
  by (simp add: algebra_simps nat_mult_distrib)


lemma chunk_sizes_six: "chunk_sizes 6 6 = [1, 1, 1, 1, 1, 1]"
  by code_simp

lemma chunk_sizes_two: "chunk_sizes 2 2 = [1, 1]"
  by code_simp

lemma chunk_shape_six:
  "chunk_shape [b, 6, d] 6 (Suc 0) = Inr [[b, 1, d], [b, 1, d], [b, 1, d], [b, 1, d], [b, 1, d], [b, 1, d]]"
  by (simp add: chunk_shape_def chunk_sizes_six)

lemma chunk_shape_two:
  "chunk_shape [b, 2, d] 2 (Suc 0) = Inr [[b, 1, d], [b, 1, d]]"
  by (simp add: chunk_shape_def chunk_sizes_two)

lemma broadcast_table: "broadcast_shapes [Suc 0, k, d] [b, k, d] = Inr [b, k, d]"
  by (simp add: broadcast_shapes_def)

lemma broadcast_table': "broadcast_shapes [1, k, d] [b, k, d] = Inr [b, k, d]"
  by (simp add: broadcast_shapes_def)

lemma broadcast_tokens: "broadcast_shapes [b, n, d] [b, Suc 0, d] = Inr [b, n, d]"
  by (simp add: broadcast_shapes_def)

lemma broadcast_gate: "broadcast_shapes [b, Suc 0, d] [b, n, d] = Inr [b, n, d]"
  by (simp add: broadcast_shapes_def)

lemma broadcast_out_table: "broadcast_shapes [Suc 0, 2, d] [b, Suc 0, d] = Inr [b, 2, d]"
  by (simp add: broadcast_shapes_def)

lemma broadcast_vec: "broadcast_shapes [b, m, d] [d] = Inr [b, m, d]"
  by (simp add: broadcast_shapes_def)

lemma unflatten_tokens: "unflatten_shape [b, H * W, d] (Suc 0) [H, W] = Inr [b, H, W, d]"
  by (simp add: unflatten_shape_def)

lemma permute_to_image: "permute_shape [b, H, W, d] [0, 3, Suc 0, 2] = Inr [b, d, H, W]"
proof -
  have "sort [0, 3, Suc 0, 2] = [0, Suc 0, 2, 3]" by simp
  moreover have "[0..<4] = [0, Suc 0, 2, 3]" by (simp add: upt_rec numeral_eq_Suc)
  ultimately show ?thesis by (simp add: permute_shape_def numeral_eq_Suc)
qed

lemma flatten_image: "flatten_shape [b, d, H, W] 2 3 = Inr [b, d, H * W]"
  by (simp add: flatten_shape_def numeral_eq_Suc)

lemma permute_to_tokens: "permute_shape [b, d, n] [0, 2, Suc 0] = Inr [b, n, d]"
proof -
  have "sort [0, 2, Suc 0] = [0, Suc 0, 2]" by simp
  moreover have "[0..<3] = [0, Suc 0, 2]" by (simp add: upt_rec numeral_eq_Suc)
  ultimately show ?thesis by (simp add: permute_shape_def numeral_eq_Suc)
qed

lemma permute_unpatchify:
  "permute_shape [b, H, W, p, q, oc] [0, 5, Suc 0, 3, 2, 4] = Inr [b, oc, H, p, W, q]"
proof -
  have "sort [0, 5, Suc 0, 3, 2, 4] = [0, Suc 0, 2, 3, 4, 5]" by simp
  moreover have "[0..<6] = [0, Suc 0, 2, 3, 4, 5]" by (simp add: upt_rec numeral_eq_Suc)
  ultimately show ?thesis by (simp add: permute_shape_def numeral_eq_Suc)
qed

lemma attention_mask_ok_bias:
  "0 < b \<Longrightarrow> 0 < heads \<Longrightarrow> 0 < m \<Longrightarrow> attention_mask_ok heads b n m [b, Suc 0, m]"
proof -
  assume b: "0 < b" and h: "0 < heads" and m: "0 < m"
  show ?thesis
  proof (cases "heads = 1")
    case True
    then show ?thesis using b m by (simp add: attention_mask_ok_def Let_def)
  next
    case False
    with h have "Suc 0 < heads" by simp
    then show ?thesis using b m by (simp add: attention_mask_ok_def Let_def)
  qed
qed


lemma SanaTransformerBlock_init_success:
  assumes "SanaTransformerBlock_init shape_ops (shape_layers ge old) d heads hdim ch chdim (Some c)
             ab nea aob r = Inr B"
  shows "\<exists>g. GLUMBConv_init d d r None False = Inr g \<and>
     B = \<lparr>blk_norm1 = \<lparr>ln_dim = d, ln_elementwise_affine = False\<rparr>,
          blk_attn1 = \<lparr>attn_query_dim = d, attn_cross_attention_dim = None,
                    attn_heads = heads, attn_dim_head = hdim,
                    attn_bias = ab, attn_out_bias = True,
                    attn_processor = SanaLinearAttnProcessor2_0\<rparr>,
          blk_norm2 = Some \<lparr>ln_dim = d, ln_elementwise_affine = nea\<rparr>,
          blk_attn2 = Some \<lparr>attn_query_dim = d, attn_cross_attention_dim = Some c,
                             attn_heads = ch, attn_dim_head = chdim,
                             attn_bias = True, attn_out_bias = aob,
                             attn_processor = AttnProcessor2_0\<rparr>,
          blk_ff = g,
          blk_scale_shift_table = [6, d],
          blk_gradient_checkpointing = None\<rparr>"
  using assms
  by (cases "GLUMBConv_init d d r None False")
     (auto simp: SanaTransformerBlock_init_def Let_def shape_ops_def shape_layers_def)

lemma SanaTransformerBlock_forward_shape:
  assumes init: "SanaTransformerBlock_init shape_ops (shape_layers ge old) d heads hdim ch chdim (Some d)
             ab nea aob r = Inr B"
    and pos: "0 < b" "0 < H" "0 < W" "0 < heads" "0 < ch"
    and msk: "encoder_attention_mask = None \<or> (0 < m \<and> encoder_attention_mask = Some [b, 1, m])"
  shows "SanaTransformerBlock_forward shape_ops (shape_layers ge' old') B [b, H * W, d] attention_mask
           (Some [b, m, d]) encoder_attention_mask [b, 6 * d] H W = Inr [b, H * W, d]"
proof -
  from SanaTransformerBlock_init_success[OF init] obtain g where
    g: "GLUMBConv_init d d r None False = Inr g" and
    B: "B = \<lparr>blk_norm1 = \<lparr>ln_dim = d, ln_elementwise_affine = False\<rparr>,
          blk_attn1 = \<lparr>attn_query_dim = d, attn_cross_attention_dim = None,
                    attn_heads = heads, attn_dim_head = hdim,
                    attn_bias = ab, attn_out_bias = True,
                    attn_processor = SanaLinearAttnProcessor2_0\<rparr>,
          blk_norm2 = Some \<lparr>ln_dim = d, ln_elementwise_affine = nea\<rparr>,
          blk_attn2 = Some \<lparr>attn_query_dim = d, attn_cross_attention_dim = Some d,
                             attn_heads = ch, attn_dim_head = chdim,
                             attn_bias = True, attn_out_bias = aob,
                             attn_processor = AttnProcessor2_0\<rparr>,
          blk_ff = g,
          blk_scale_shift_table = [6, d],
          blk_gradient_checkpointing = None\<rparr>" by blast
  have ff: "GLUMBConv_forward shape_ops (shape_layers ge' old') g [b, d, H, W] = Inr [b, d, H, W]"
    using GLUMBConv_forward_shape[OF g pos(2,3)] by simp
  have mod: "modulation shape_ops [6, d] [b, 6 * d] b
               = Inr ([b, 1, d], [b, 1, d], [b, 1, d], [b, 1, d], [b, 1, d], [b, 1, d])"
    using pos(1)
    by (simp add: modulation_def modulation_sum_def shape_ops_def unsqueeze_shape_def
          reshape_timestep broadcast_table chunk_shape_six)
  have ops: "t_shape shape_ops = (\<lambda>s. s)" "t_mul shape_ops = broadcast_shapes"
    "t_add shape_ops = broadcast_shapes" "t_add_scalar shape_ops = (\<lambda>c s. s)"
    "t_unflatten shape_ops = unflatten_shape" "t_permute shape_ops = permute_shape"
    "t_flatten shape_ops = flatten_shape"
    by (simp_all add: shape_ops_def)
  have lay: "l_layer_norm (shape_layers ge' old') = layer_norm_shape"
    "l_attention (shape_layers ge' old') = attention_shape"
    by (simp_all add: shape_layers_def)
  have a1: "attention_shape \<lparr>attn_query_dim = d, attn_cross_attention_dim = None,
                    attn_heads = heads, attn_dim_head = hdim,
                    attn_bias = ab, attn_out_bias = True,
                    attn_processor = SanaLinearAttnProcessor2_0\<rparr> [b, H * W, d] None None
             = Inr [b, H * W, d]"
    using pos(4) by (simp add: attention_shape_def)
  have a2: "attention_shape \<lparr>attn_query_dim = d, attn_cross_attention_dim = Some d,
                             attn_heads = ch, attn_dim_head = chdim,
                             attn_bias = True, attn_out_bias = aob,
                             attn_processor = AttnProcessor2_0\<rparr> [b, H * W, d]
               (Some [b, m, d]) encoder_attention_mask = Inr [b, H * W, d]"
    using pos(5) msk attention_mask_ok_bias[OF pos(1) pos(5), of m "H * W"]
    by (auto simp: attention_shape_def)
  show ?thesis
    unfolding SanaTransformerBlock_forward_def B
    by (simp add: ops lay mod shape_first_def layer_norm_shape_def broadcast_tokens broadcast_gate
          broadcast_shapes_same a1 a2 to_dtype_def unflatten_tokens permute_to_image ff
          flatten_image permute_to_tokens)
qed


lemma make_blocks_members:
  "make_blocks n mk = Inr bs \<Longrightarrow> length bs = n \<and> (\<forall>x \<in> set bs. mk = Inr x)"
proof (induction n arbitrary: bs)
  case 0
  then show ?case by simp
next
  case (Suc n)
  then show ?case
    by (cases mk; cases "make_blocks n mk") auto
qed

lemma call_block_forward_shape:
  assumes "blk_gradient_checkpointing B = None"
  shows "call_block_forward shape_ops (shape_layers ge old)
           (create_block_forward shape_ops (shape_layers ge old) self ts B) inputs
         = SanaTransformerBlock_call shape_ops (shape_layers ge old) B inputs"
  using assms
  by (simp add: call_block_forward_def create_block_forward_def Let_def
        set_gradient_checkpointing_block_def shape_layers_def split: option.splits)

lemma run_blocks_shape:
  assumes blocks: "\<forall>B \<in> set blocks.
             SanaTransformerBlock_init shape_ops (shape_layers ge0 old0) d heads hdim ch chdim (Some d)
               ab nea aob r = Inr B"
    and pos: "0 < b" "0 < H" "0 < W" "0 < heads" "0 < ch"
    and msk: "encoder_attention_mask = None \<or> (0 < m \<and> encoder_attention_mask = Some [b, 1, m])"
  shows "run_blocks shape_ops (shape_layers ge old) self blocks [b, H * W, d] attention_mask
           [b, m, d] encoder_attention_mask [b, 6 * d] H W = Inr [b, H * W, d]"
  using blocks
proof (induction blocks)
  case Nil
  show ?case by simp
next
  case (Cons B blocks)
  then have init: "SanaTransformerBlock_init shape_ops (shape_layers ge0 old0) d heads hdim ch chdim (Some d)
               ab nea aob r = Inr B" by simp
  from SanaTransformerBlock_init_success[OF init] have flag: "blk_gradient_checkpointing B = None"
    by auto
  note step = SanaTransformerBlock_forward_shape[OF init pos msk, where ge'=ge and old'=old]
  show ?case using Cons by (simp add: call_block_forward_shape[OF flag] step)
qed


lemma SanaTransformer2DModel_init_success:
  assumes "SanaTransformer2DModel_init shape_ops (shape_layers ge old) cfg = Inr self"
  shows "0 < patch_size cfg"
    and "config self = cfg"
    and "patch_embed self = \<lparr>pe_height = sample_size cfg, pe_width = sample_size cfg,
            pe_patch_size = patch_size cfg, pe_in_channels = in_channels cfg,
            pe_embed_dim = num_attention_heads cfg * attention_head_dim cfg\<rparr>"
    and "time_embed self = num_attention_heads cfg * attention_head_dim cfg"
    and "caption_projection self = \<lparr>tp_in_features = caption_channels cfg,
            tp_hidden_size = num_attention_heads cfg * attention_head_dim cfg\<rparr>"
    and "caption_norm self = \<lparr>rms_dim = num_attention_heads cfg * attention_head_dim cfg,
            rms_elementwise_affine = True, rms_bias = False\<rparr>"
    and "\<forall>B \<in> set (transformer_blocks self).
           SanaTransformerBlock_init shape_ops (shape_layers ge old)
             (num_attention_heads cfg * attention_head_dim cfg) (num_attention_heads cfg)
             (attention_head_dim cfg) (num_cross_attention_heads cfg)
             (cross_attention_head_dim cfg) (cross_attention_dim cfg)
             (attention_bias cfg) (norm_elementwise_affine cfg) True (mlp_ratio cfg) = Inr B"
    and "length (transformer_blocks self) = num_layers cfg"
    and "scale_shift_table self = [2, num_attention_heads cfg * attention_head_dim cfg]"
    and "norm_out self = \<lparr>ln_dim = num_attention_heads cfg * attention_head_dim cfg,
            ln_elementwise_affine = False\<rparr>"
    and "proj_out self = \<lparr>lin_in_features = num_attention_heads cfg * attention_head_dim cfg,
            lin_out_features = patch_size cfg * patch_size cfg
               * py_or (out_channels cfg) (in_channels cfg)\<rparr>"
proof -
  let ?mk = "SanaTransformerBlock_init shape_ops (shape_layers ge old)
             (num_attention_heads cfg * attention_head_dim cfg) (num_attention_heads cfg)
             (attention_head_dim cfg) (num_cross_attention_heads cfg)
             (cross_attention_head_dim cfg) (cross_attention_dim cfg)
             (attention_bias cfg) (norm_elementwise_affine cfg) True (mlp_ratio cfg)"
  from assms have p: "patch_size cfg \<noteq> 0"
    by (auto simp: SanaTransformer2DModel_init_def Let_def PatchEmbed_def split: if_splits)
  then show "0 < patch_size cfg" by simp
  from assms p obtain bs where bs: "make_blocks (num_layers cfg) ?mk = Inr bs"
    by (cases "make_blocks (num_layers cfg) ?mk")
       (auto simp: SanaTransformer2DModel_init_def Let_def PatchEmbed_def)
  from assms p bs have self: "self = \<lparr>config = cfg,
           patch_embed = \<lparr>pe_height = sample_size cfg, pe_width = sample_size cfg,
            pe_patch_size = patch_size cfg, pe_in_channels = in_channels cfg,
            pe_embed_dim = num_attention_heads cfg * attention_head_dim cfg\<rparr>,
           time_embed = num_attention_heads cfg * attention_head_dim cfg,
           caption_projection =
             \<lparr>tp_in_features = caption_channels cfg,
              tp_hidden_size = num_attention_heads cfg * attention_head_dim cfg\<rparr>,
           caption_norm =
             \<lparr>rms_dim = num_attention_heads cfg * attention_head_dim cfg,
              rms_elementwise_affine = True, rms_bias = False\<rparr>,
           transformer_blocks = bs,
           scale_shift_table = [2, num_attention_heads cfg * attention_head_dim cfg],
           norm_out = \<lparr>ln_dim = num_attention_heads cfg * attention_head_dim cfg,
                        ln_elementwise_affine = False\<rparr>,
           proj_out =
             \<lparr>lin_in_features = num_attention_heads cfg * attention_head_dim cfg,
              lin_out_features = patch_size cfg * patch_size cfg
                 * py_or (out_channels cfg) (in_channels cfg)\<rparr>,
           gradient_checkpointing = False,
           gradient_checkpointing_interval = None\<rparr>"
    by (auto simp: SanaTransformer2DModel_init_def Let_def PatchEmbed_def shape_ops_def
          shape_layers_def)
  note mb = make_blocks_members[OF bs]
  show "config self = cfg" by (subst self) simp
  show "patch_embed self = \<lparr>pe_height = sample_size cfg, pe_width = sample_size cfg,
            pe_patch_size = patch_size cfg, pe_in_channels = in_channels cfg,
            pe_embed_dim = num_attention_heads cfg * attention_head_dim cfg\<rparr>"
    by (subst self) simp
  show "time_embed self = num_attention_heads cfg * attention_head_dim cfg" by (subst self) simp
  show "caption_projection self = \<lparr>tp_in_features = caption_channels cfg,
            tp_hidden_size = num_attention_heads cfg * attention_head_dim cfg\<rparr>"
    by (subst self) simp
  show "caption_norm self = \<lparr>rms_dim = num_attention_heads cfg * attention_head_dim cfg,
            rms_elementwise_affine = True, rms_bias = False\<rparr>" by (subst self) simp
  show "\<forall>B \<in> set (transformer_blocks self). ?mk = Inr B" using mb by (subst self) simp
  show "length (transformer_blocks self) = num_layers cfg" using mb by (subst self) simp
  show "scale_shift_table self = [2, num_attention_heads cfg * attention_head_dim cfg]"
    by (subst self) simp
  show "norm_out self = \<lparr>ln_dim = num_attention_heads cfg * attention_head_dim cfg,
            ln_elementwise_affine = False\<rparr>" by (subst self) simp
  show "proj_out self = \<lparr>lin_in_features = num_attention_heads cfg * attention_head_dim cfg,
            lin_out_features = patch_size cfg * patch_size cfg
               * py_or (out_channels cfg) (in_channels cfg)\<rparr>" by (subst self) simp
qed


lemma patch_count: "0 < (p::nat) \<Longrightarrow> p dvd h \<Longrightarrow> 0 < h \<Longrightarrow> (h - p) div p + 1 = h div p \<and> 0 < h div p \<and> p \<le> h \<and> h div p * p = h"
proof -
  assume p: "0 < p" and d: "p dvd h" and h: "0 < h"
  from d obtain k where k: "h = p * k" by (auto simp: dvd_def)
  have kpos: "0 < k"
  proof (rule ccontr)
    assume "\<not> 0 < k"
    then have "k = 0" by simp
    with k h show False by simp
  qed
  then obtain j where j: "k = Suc j" by (cases k) auto
  have "h - p = p * j" using k j by simp
  then have "(h - p) div p = j" using p by simp
  moreover have "h div p = k" using k p by simp
  moreover have "p \<le> h" using k kpos p by (simp add: j)
  ultimately show ?thesis using j kpos k by simp
qed

lemma forward_masks_shape:
  assumes "encoder_attention_mask = None \<or> (0 < m \<and> encoder_attention_mask = Some [b, m])"
  shows "\<exists>eam am. forward_masks shape_ops encoder_attention_mask attention_mask = Inr (eam, am)
           \<and> (eam = None \<or> (0 < m \<and> eam = Some [b, 1, m]))"
proof -
  have am: "\<exists>am. (case attention_mask of
              None \<Rightarrow> Inr None
            | Some m \<Rightarrow>
                if length (t_shape shape_ops m) = 2
                then bindE (t_unsqueeze shape_ops (t_mul_scalar shape_ops (t_rsub_scalar shape_ops 1 (to_dtype m)) (- 10000)) 1)
                       (\<lambda>b. Inr (Some b))
                else Inr (Some m)) = Inr am"
    by (cases attention_mask) (auto simp: shape_ops_def unsqueeze_shape_def to_dtype_def)
  then obtain am where am: "(case attention_mask of
              None \<Rightarrow> Inr None
            | Some m \<Rightarrow>
                if length (t_shape shape_ops m) = 2
                then bindE (t_unsqueeze shape_ops (t_mul_scalar shape_ops (t_rsub_scalar shape_ops 1 (to_dtype m)) (- 10000)) 1)
                       (\<lambda>b. Inr (Some b))
                else Inr (Some m)) = Inr am" by blast
  from assms show ?thesis
    unfolding forward_masks_def am
    by (auto simp: shape_ops_def unsqueeze_shape_def to_dtype_def)
qed

text \<open>
  Claim C5. Take a model built by the constructor whose cross-attention width is the inner
  width \<open>num_attention_heads * attention_head_dim\<close>, with at least one head of each kind, in
  any checkpointing setting. For a latent \<open>[b, in_channels, h, w]\<close> with positive sizes whose
  \<open>h\<close> and \<open>w\<close> are multiples of \<open>patch_size\<close>, a caption \<open>[b, m, caption_channels]\<close>, one
  timestep per batch item, an optional 2-D caption mask and any self-attention mask, \<open>forward\<close>
  returns a tensor of shape \<open>[b, out_channels, h, w]\<close>, where \<open>out_channels\<close> falls back to
  \<open>in_channels\<close> when unset: the final reshape, permute and reshape restore the \<open>h \<times> w\<close> grid.
\<close>

theorem forward_shape:
  assumes init: "SanaTransformer2DModel_init shape_ops (shape_layers ge old) cfg = Inr self"
    and cross: "cross_attention_dim cfg = Some (num_attention_heads cfg * attention_head_dim cfg)"
    and heads: "0 < num_attention_heads cfg" "0 < attention_head_dim cfg"
               "0 < num_cross_attention_heads cfg"
    and dims: "0 < b" "0 < h" "0 < w"
    and patches: "patch_size cfg dvd h" "patch_size cfg dvd w"
    and msk: "encoder_attention_mask = None \<or> (0 < m \<and> encoder_attention_mask = Some [b, m])"
  shows "SanaTransformer2DModel_forward shape_ops (shape_layers ge' old')
           (self\<lparr>gradient_checkpointing := gc, gradient_checkpointing_interval := iv\<rparr>)
           [b, in_channels cfg, h, w] [b, m, caption_channels cfg] [b]
           encoder_attention_mask attention_mask
         = Inr [b, py_or (out_channels cfg) (in_channels cfg), h, w]"
proof -
  let ?d = "num_attention_heads cfg * attention_head_dim cfg"
  let ?p = "patch_size cfg"
  let ?self = "self\<lparr>gradient_checkpointing := gc, gradient_checkpointing_interval := iv\<rparr>"
  note s = SanaTransformer2DModel_init_success[OF init]
  have d: "0 < ?d" using heads by simp
  note ph = patch_count[OF s(1) patches(1) dims(2)]
  note pw = patch_count[OF s(1) patches(2) dims(3)]
  from forward_masks_shape[OF msk, of attention_mask] obtain eam am where
    masks: "forward_masks shape_ops encoder_attention_mask attention_mask = Inr (eam, am)"
    and eam: "eam = None \<or> (0 < m \<and> eam = Some [b, 1, m])" by blast
  have blocks: "\<forall>B \<in> set (transformer_blocks self).
             SanaTransformerBlock_init shape_ops (shape_layers ge old) ?d (num_attention_heads cfg)
               (attention_head_dim cfg) (num_cross_attention_heads cfg)
               (cross_attention_head_dim cfg) (Some ?d)
               (attention_bias cfg) (norm_elementwise_affine cfg) True (mlp_ratio cfg) = Inr B"
    using s(7) cross by simp
  have ph': "0 < h div ?p" and pw': "0 < w div ?p" using ph pw by simp_all
  note loop = run_blocks_shape[OF blocks dims(1) ph' pw' heads(1) heads(3) eam,
      where ge=ge' and old=old' and self="?self" and attention_mask=am]
  have ops: "t_shape shape_ops = (\<lambda>s. s)" "t_mul shape_ops = broadcast_shapes"
    "t_add shape_ops = broadcast_shapes" "t_add_scalar shape_ops = (\<lambda>c s. s)"
    "t_permute shape_ops = permute_shape" "t_reshape shape_ops = reshape_shape"
    "t_unsqueeze shape_ops = unsqueeze_shape" "t_chunk shape_ops = chunk_shape"
    by (simp_all add: shape_ops_def)
  have lay: "l_layer_norm (shape_layers ge' old') = layer_norm_shape"
    "l_patch_embed (shape_layers ge' old') = patch_embed_shape"
    "l_time_embed (shape_layers ge' old') = time_embed_shape"
    "l_caption_projection (shape_layers ge' old') = caption_projection_shape"
    "l_rms_norm (shape_layers ge' old') = rms_norm_shape"
    "l_linear (shape_layers ge' old') = linear_shape"
    by (simp_all add: shape_layers_def)
  have fields: "config ?self = cfg" "patch_embed ?self = patch_embed self"
    "time_embed ?self = time_embed self" "caption_projection ?self = caption_projection self"
    "caption_norm ?self = caption_norm self" "scale_shift_table ?self = scale_shift_table self"
    "norm_out ?self = norm_out self" "proj_out ?self = proj_out self"
    using s(2) by simp_all
  have pe: "patch_embed_shape (patch_embed self) [b, in_channels cfg, h, w]
              = Inr [b, (h div ?p) * (w div ?p), ?d]"
    using s(1) ph pw by (simp add: s(3) patch_embed_shape_def)
  have final: "reshape_shape [b, py_or (out_channels cfg) (in_channels cfg), h div ?p, ?p, w div ?p, ?p]
                 [int b, - 1, int (h div ?p * ?p), int (w div ?p * ?p)]
               = Inr [b, py_or (out_channels cfg) (in_channels cfg), h, w]"
    using reshape_image[OF dims(1) ph' pw' s(1), of "py_or (out_channels cfg) (in_channels cfg)"]
      ph pw by simp
  show ?thesis
    unfolding SanaTransformer2DModel_forward_def masks fields
    using s(1)
    by (simp del: of_nat_mult add: ops lay pe s(4-6) s(9-11) floordiv_def time_embed_shape_def
          caption_projection_shape_def shape_last_def reshape_caption[OF dims(1) d]
          rms_norm_shape_def broadcast_vec loop unsqueeze_shape_def broadcast_out_table
          chunk_shape_two layer_norm_shape_def to_dtype_def broadcast_tokens linear_shape_def
          reshape_patches[OF dims(1) ph' pw' s(1)] permute_unpatchify final Let_def)
qed

lemma example_init_ok:
  "\<exists>self. SanaTransformer2DModel_init shape_ops (shape_layers True False) example_config = Inr self"
  by (simp add: SanaTransformer2DModel_init_def example_config_def Let_def PatchEmbed_def
        SanaTransformerBlock_init_def GLUMBConv_init_def Conv2d_def py_int_def numeral_2_eq_2)

theorem forward_shape_witness:
  "\<exists>self. SanaTransformer2DModel_init shape_ops (shape_layers True False) example_config = Inr self
     \<and> SanaTransformer2DModel_forward shape_ops (shape_layers True False)
           (self\<lparr>gradient_checkpointing := True, gradient_checkpointing_interval := Some 2\<rparr>)
           [1, 4, 8, 6] [1, 5, 16] [1] (Some [1, 5]) (Some [1, 12]) = Inr [1, 3, 8, 6]"
proof -
  obtain self where i:
    "SanaTransformer2DModel_init shape_ops (shape_layers True False) example_config = Inr self"
    using example_init_ok by blast
  have c: "cross_attention_dim example_config
             = Some (num_attention_heads example_config * attention_head_dim example_config)"
    by (simp add: example_config_def)
  have hs: "0 < num_attention_heads example_config" "0 < attention_head_dim example_config"
    "0 < num_cross_attention_heads example_config"
    by (simp_all add: example_config_def)
  have ds: "0 < (1::nat)" "0 < (8::nat)" "0 < (6::nat)" by simp_all
  have ps: "patch_size example_config dvd 8" "patch_size example_config dvd 6"
    by (simp_all add: example_config_def)
  have m: "Some [1, 5] = None \<or> (0 < (5::nat) \<and> Some [1, 5] = Some [1::nat, 5])" by simp
  from forward_shape[OF i c hs ds ps m, where ge'=True and old'=False and gc=True and iv="Some 2"
      and attention_mask="Some [1, 12]"]
  have "SanaTransformer2DModel_forward shape_ops (shape_layers True False)
           (self\<lparr>gradient_checkpointing := True, gradient_checkpointing_interval := Some 2\<rparr>)
           [1, 4, 8, 6] [1, 5, 16] [1] (Some [1, 5]) (Some [1, 12]) = Inr [1, 3, 8, 6]"
    by (simp add: example_config_def py_or_def)
  with i show ?thesis by blast
qed


section \<open>Attention masks\<close>










section \<open>Tensors as values: indexing, chunks and concatenation\<close>

lemma length_concat_uniform:
  "(\<And>x. x \<in> set xss \<Longrightarrow> length x = P) \<Longrightarrow> length (concat xss) = length xss * P"
  by (induction xss) auto

lemma nth_concat_uniform:
  "(\<And>x. x \<in> set xss \<Longrightarrow> length x = P) \<Longrightarrow> i < length xss \<Longrightarrow> k < P \<Longrightarrow>
     concat xss ! (i * P + k) = xss ! i ! k"
proof (induction xss arbitrary: i)
  case Nil
  then show ?case by simp
next
  case (Cons xs xss)
  show ?case
  proof (cases i)
    case 0
    then show ?thesis using Cons.prems by (simp add: nth_append)
  next
    case (Suc j)
    have "concat (xs # xss) ! (i * P + k) = concat xss ! (j * P + k)"
      using Cons.prems Suc by (simp add: nth_append)
    also have "\<dots> = xss ! j ! k" using Cons.IH[of j] Cons.prems Suc by simp
    finally show ?thesis using Suc by simp
  qed
qed

lemma length_indices: "length (indices s) = prod_list s"
proof (induction s)
  case Nil
  show ?case by simp
next
  case (Cons n s)
  have "length (concat (map (\<lambda>i. map ((#) i) (indices s)) [0..<n])) = length (map (\<lambda>i. map ((#) i) (indices s)) [0..<n]) * prod_list s"
    by (rule length_concat_uniform) (auto simp: Cons)
  then show ?case by simp
qed

lemma indices_nth:
  "list_all2 (<) idx s \<Longrightarrow> offset s idx < prod_list s \<and> indices s ! offset s idx = idx"
proof (induction idx s rule: list_all2_induct)
  case Nil
  show ?case by simp
next
  case (Cons i idx n s)
  let ?P = "prod_list s"
  let ?xss = "map (\<lambda>i. map ((#) i) (indices s)) [0..<n]"
  from Cons have o: "offset s idx < ?P" and ih: "indices s ! offset s idx = idx" by simp_all
  have "i * ?P + offset s idx < Suc i * ?P" using o by simp
  also have "\<dots> \<le> n * ?P" using Cons.hyps(1) by (simp only: mult_le_mono1 Suc_leI)
  finally have bound: "i * ?P + offset s idx < n * ?P" .
  have "concat ?xss ! (i * ?P + offset s idx) = ?xss ! i ! offset s idx"
    by (rule nth_concat_uniform) (use Cons.hyps(1) o in \<open>auto simp: length_indices\<close>)
  also have "\<dots> = i # idx" using Cons.hyps(1) o ih by (simp add: length_indices)
  finally show ?case using bound by simp
qed

lemma indices_valid: "idx \<in> set (indices s) \<Longrightarrow> list_all2 (<) idx s"
proof (induction s arbitrary: idx)
  case Nil
  then show ?case by simp
next
  case (Cons n s)
  then obtain i rest where "i < n" "rest \<in> set (indices s)" "idx = i # rest" by auto
  with Cons.IH show ?case by simp
qed

lemma concat_upt_blocks: "concat (map (\<lambda>i. map (\<lambda>k. i * P + k) [0..<P]) [0..<n]) = [0..<n * P]"
proof (induction n)
  case 0
  show ?case by simp
next
  case (Suc n)
  have blk: "map (\<lambda>k. n * P + k) [0..<P] = [n * P..<n * P + P]"
    using map_add_upt[of "n * P" P] by (simp add: add.commute)
  have app: "[0..<n * P] @ [n * P..<n * P + P] = [0..<n * P + P]"
    using upt_add_eq_append[of 0 "n * P" P] by simp
  have "concat (map (\<lambda>i. map (\<lambda>k. i * P + k) [0..<P]) [0..<Suc n])
          = concat (map (\<lambda>i. map (\<lambda>k. i * P + k) [0..<P]) [0..<n]) @ map (\<lambda>k. n * P + k) [0..<P]"
    by simp
  also have "\<dots> = [0..<n * P + P]" unfolding Suc blk app ..
  finally show ?case by (simp add: add.commute)
qed

lemma offsets_indices: "map (offset s) (indices s) = [0..<prod_list s]"
proof (induction s)
  case Nil
  show ?case by simp
next
  case (Cons n s)
  have "map (offset (n # s)) (indices (n # s))
          = concat (map (\<lambda>i. map (\<lambda>k. i * prod_list s + k) (map (offset s) (indices s))) [0..<n])"
    by (simp add: map_concat comp_def)
  also have "\<dots> = [0..<n * prod_list s]" unfolding Cons by (rule concat_upt_blocks)
  finally show ?case by simp
qed

lemma gather_entry:
  "length (tdata t) = prod_list (tshape t) \<Longrightarrow> gather (tshape t) (entry t) = t"
proof -
  assume wf: "length (tdata t) = prod_list (tshape t)"
  have "map (entry t) (indices (tshape t)) = map ((!) (tdata t)) (map (offset (tshape t)) (indices (tshape t)))"
    by (simp add: entry_def comp_def)
  also have "\<dots> = tdata t" unfolding offsets_indices wf[symmetric] by (rule map_nth)
  finally show ?thesis by (simp add: gather_def)
qed

lemma entry_gather:
  "list_all2 (<) idx s \<Longrightarrow> entry (gather s f) idx = f idx"
  using indices_nth[of idx s] by (simp add: entry_def gather_def length_indices)

lemma gather_cong:
  "(\<And>idx. list_all2 (<) idx s \<Longrightarrow> f idx = g idx) \<Longrightarrow> gather s f = gather s g"
  by (auto simp: gather_def dest: indices_valid)

lemma gather_wf: "length (tdata (gather s f)) = prod_list (tshape (gather s f))"
  by (simp add: gather_def length_indices)


lemma upt_6: "[0..<6] = [0, 1, 2, 3, 4, 5]"
  by (simp add: upt_rec numeral_eq_Suc)

lemma locate_units: "i < n \<Longrightarrow> locate (replicate n (Suc 0)) i = (i, 0)"
proof (induction n arbitrary: i)
  case 0
  then show ?case by simp
next
  case (Suc n)
  then show ?case by (cases i) auto
qed

lemma starts_units: "starts a (replicate n (Suc 0)) = [a..<a + n]"
proof (induction n arbitrary: a)
  case 0
  show ?case by simp
next
  case (Suc n)
  show ?case using Suc[of "Suc a"] by (simp add: upt_rec)
qed

lemma map2_replicate: "length ys = n \<Longrightarrow> map2 f (replicate n x) ys = map (f x) ys"
proof (induction n arbitrary: ys)
  case 0
  then show ?case by simp
next
  case (Suc n)
  then show ?case by (cases ys) auto
qed

lemma replicate_6: "replicate 6 x = [x, x, x, x, x, x]"
  by (simp add: numeral_eq_Suc)

lemma chunk_values_six:
  assumes "tshape P = [b, 6, z]"
  shows "chunk_values P 6 (Suc 0)
           = Inr (map (\<lambda>j. gather [b, 1, z] (\<lambda>idx. entry P (idx[Suc 0 := idx ! Suc 0 + j]))) [0..<6])"
proof -
  have shapes: "chunk_shape [b, 6, z] 6 (Suc 0) = Inr (replicate 6 [b, 1, z])"
    by (simp only: chunk_shape_six replicate_6)
  have sizes: "map (\<lambda>s'. s' ! Suc 0) (replicate 6 [b, 1, z]) = replicate 6 (Suc 0)"
    by simp
  have st: "starts 0 (replicate 6 (Suc 0)) = [0..<6]"
    using starts_units[of 0 6] by simp
  show ?thesis
    unfolding chunk_values_def assms shapes bindE_simps sizes st
    by (subst map2_replicate) simp_all
qed

lemma cat_six:
  assumes shape: "tshape P = [b, 6, z]" and wf: "length (tdata P) = prod_list (tshape P)"
  shows "cat_values (map (\<lambda>j. gather [b, 1, z] (\<lambda>idx. entry P (idx[Suc 0 := idx ! Suc 0 + j]))) [0..<6])
           (Suc 0) = P"
proof -
  let ?piece = "\<lambda>j. gather [b, 1, z] (\<lambda>idx. entry P (idx[Suc 0 := idx ! Suc 0 + j]))"
  let ?cs = "map ?piece [0..<6]"
  have sizes: "map (\<lambda>t. tshape t ! Suc 0) ?cs = replicate 6 (Suc 0)"
    by (simp add: gather_def comp_def map_replicate_const)
  have hd: "tshape (hd ?cs) = [b, 1, z]" by (simp add: hd_map gather_def)
  have sum: "sum_list (map (\<lambda>t. tshape t ! Suc 0) ?cs) = 6"
    unfolding sizes by (simp add: sum_list_replicate)
  have "cat_values ?cs (Suc 0)
          = gather [b, 6, z]
              (\<lambda>idx. case locate (replicate 6 (Suc 0)) (idx ! Suc 0) of
                        (k, j) \<Rightarrow> entry (?cs ! k) (idx[Suc 0 := j]))"
    unfolding cat_values_def sizes hd by (simp add: sum_list_replicate)
  also have "\<dots> = gather [b, 6, z] (entry P)"
  proof (rule gather_cong)
    fix idx assume v: "list_all2 (<) idx [b, 6, z]"
    then obtain a i k where idx: "idx = [a, i, k]" and a: "a < b" and i: "i < 6" and k: "k < z"
      by (auto simp: list_all2_Cons2)
    have loc: "locate (replicate 6 (Suc 0)) i = (i, 0)" using i by (rule locate_units)
    have nth: "?cs ! i = ?piece i" using i by simp
    have valid: "list_all2 (<) [a, 0, k] [b, 1, z]" using a k by simp
    show "(case locate (replicate 6 (Suc 0)) (idx ! Suc 0) of
            (k, j) \<Rightarrow> entry (?cs ! k) (idx[Suc 0 := j])) = entry P idx"
      unfolding idx using loc nth entry_gather[OF valid] by simp
  qed
  also have "\<dots> = P" using gather_entry[OF wf] unfolding shape .
  finally show ?thesis .
qed

lemma broadcast_six:
  "broadcast_shapes [Suc 0, 6, d] [n, 6, e] = Inr r \<Longrightarrow> \<exists>x y. r = [x, 6, y]"
  by (auto simp: broadcast_shapes_def split: if_splits)

lemma reshape_three:
  "reshape_shape s [int n, 6, - 1] = Inr r \<Longrightarrow> \<exists>e. r = [n, 6, e]"
  by (auto simp: reshape_shape_def Let_def split: if_splits)

lemma modulation_sum_shape:
  assumes "tshape table = [6, d]"
    and "modulation_sum value_ops table timestep batch_size = Inr P"
  shows "\<exists>x y. tshape P = [x, 6, y]" and "length (tdata P) = prod_list (tshape P)"
proof -
  from assms(2) obtain s where
    rs: "reshape_shape (tshape timestep) [int batch_size, 6, - 1] = Inr s"
    and add: "broadcast_values (+) (table\<lparr>tshape := [Suc 0, 6, d]\<rparr>) (timestep\<lparr>tshape := s\<rparr>) = Inr P"
    by (cases "reshape_shape (tshape timestep) [int batch_size, 6, - 1]")
       (auto simp: modulation_sum_def value_ops_def with_shape_def unsqueeze_shape_def assms(1))
  from reshape_three[OF rs] obtain e where s: "s = [batch_size, 6, e]" by blast
  from add obtain r where r: "broadcast_shapes [Suc 0, 6, d] [batch_size, 6, e] = Inr r"
    and P: "P = gather r (\<lambda>idx. entry (table\<lparr>tshape := [Suc 0, 6, d]\<rparr>) (broadcast_index [Suc 0, 6, d] idx)
                             + entry (timestep\<lparr>tshape := s\<rparr>) (broadcast_index s idx))"
    unfolding s
    by (cases "broadcast_shapes [Suc 0, 6, d] [batch_size, 6, e]")
       (auto simp: broadcast_values_def)
  from broadcast_six[OF r] P show "\<exists>x y. tshape P = [x, 6, y]" by (auto simp: gather_def)
  from P show "length (tdata P) = prod_list (tshape P)" by (simp add: gather_wf)
qed

text \<open>
  Claim C8. With a \<open>[6, dim]\<close> table, whenever the sum
  \<open>scale_shift_table[None] + timestep.reshape(batch_size, 6, -1)\<close> is defined, its
  \<open>chunk(6, dim=1)\<close> yields exactly six tensors, each of the sum's shape with axis 1 of size 1,
  and concatenating the six along axis 1 gives back the sum, entry for entry.
\<close>

theorem modulation_chunks_lossless:
  assumes "tshape table = [6, d]"
    and "modulation_sum value_ops table timestep batch_size = Inr P"
  shows "\<exists>c1 c2 c3 c4 c5 c6.
           modulation value_ops table timestep batch_size = Inr (c1, c2, c3, c4, c5, c6)
         \<and> cat_values [c1, c2, c3, c4, c5, c6] 1 = P
         \<and> (\<forall>c \<in> set [c1, c2, c3, c4, c5, c6]. tshape c = (tshape P)[1 := 1])"
proof -
  from modulation_sum_shape[OF assms] obtain x y where
    shape: "tshape P = [x, 6, y]" and wf: "length (tdata P) = prod_list (tshape P)" by blast
  let ?piece = "\<lambda>j. gather [x, 1, y] (\<lambda>idx. entry P (idx[Suc 0 := idx ! Suc 0 + j]))"
  have chunks: "t_chunk value_ops P 6 (Suc 0) = Inr (map ?piece [0..<6])"
    using chunk_values_six[OF shape] by (simp add: value_ops_def)
  have m: "modulation value_ops table timestep batch_size
             = Inr (?piece 0, ?piece 1, ?piece 2, ?piece 3, ?piece 4, ?piece 5)"
    unfolding modulation_def assms(2) by (simp add: chunks upt_6)
  have c: "cat_values [?piece 0, ?piece 1, ?piece 2, ?piece 3, ?piece 4, ?piece 5] 1 = P"
    using cat_six[OF shape wf] by (simp add: upt_6)
  have s: "\<forall>c \<in> set [?piece 0, ?piece 1, ?piece 2, ?piece 3, ?piece 4, ?piece 5].
             tshape c = (tshape P)[1 := 1]"
    by (simp add: gather_def shape)
  from m c s show ?thesis by blast
qed


theorem modulation_chunks_lossless_witness:
  "tshape \<lparr>tshape = [6, 1], tdata = [1, 2, 3, 4, 5, 6]\<rparr> = [6, 1]
   \<and> (\<exists>P. modulation_sum value_ops \<lparr>tshape = [6, 1], tdata = [1, 2, 3, 4, 5, 6]\<rparr>
               \<lparr>tshape = [1, 6], tdata = [10, 20, 30, 40, 50, 60]\<rparr> 1 = Inr P
          \<and> (\<exists>c1 c2 c3 c4 c5 c6.
                 modulation value_ops \<lparr>tshape = [6, 1], tdata = [1, 2, 3, 4, 5, 6]\<rparr>
                   \<lparr>tshape = [1, 6], tdata = [10, 20, 30, 40, 50, 60]\<rparr> 1
                   = Inr (c1, c2, c3, c4, c5, c6)
               \<and> cat_values [c1, c2, c3, c4, c5, c6] 1 = P))"
proof -
  let ?table = "\<lparr>tshape = [6, 1], tdata = [1, 2, 3, 4, 5, 6]\<rparr>"
  let ?ts = "\<lparr>tshape = [1, 6], tdata = [10, 20, 30, 40, 50, 60]\<rparr>"
  have sh: "tshape ?table = [6, 1]" by simp
  have r: "reshape_shape [Suc 0, 6] [1, 6, - 1] = Inr [Suc 0, 6, Suc 0]"
    using reshape_infer[of "[1, 6]" "[]" "[1, 6]" 1] by simp
  obtain P where P: "modulation_sum value_ops ?table ?ts 1 = Inr P"
    by (simp add: modulation_sum_def value_ops_def with_shape_def unsqueeze_shape_def r
          broadcast_values_def broadcast_shapes_def)
  from modulation_chunks_lossless[OF sh P] sh P show ?thesis by blast
qed

section \<open>Setting attention processors\<close>

lemma all_to_update: "all_to p (AList.update k v ps) = AList.update k p (all_to p ps)"
  by (induction ps) (auto simp: all_to_def)

lemma single_walk:
  "\<exists>m'. fn_recursive_attn_processor name (m :: 'p module) (Single p) = (m', Single p, None) \<and>
     (\<forall>ps. fn_recursive_add_processors name m' (all_to p ps) = all_to p (fn_recursive_add_processors name m ps))"
  "\<exists>chs'. attn_processor_children name (chs :: (string \<times> 'p module) list) (Single p) = (chs', Single p, None) \<and>
     (\<forall>ps. add_processors_children name chs' (all_to p ps) = all_to p (add_processors_children name chs ps))"
proof (induction name m "dummy :: 'p dict" and name chs "dummy :: 'p dict" rule: fn_recursive_add_processors_add_processors_children.induct)
  case (1 name pr chs processors)
  then obtain chs' where c:
      "attn_processor_children name chs (Single p) = (chs', Single p, None)"
      "\<And>ps. add_processors_children name chs' (all_to p ps) = all_to p (add_processors_children name chs ps)"
      by blast
  show ?case
  proof (cases pr)
    case None
    then show ?thesis using c by simp
  next
    case (Some old)
    have "\<And>ps. add_processors_children name chs' (AList.update (name @ ''.processor'') p (all_to p ps))
         = all_to p (add_processors_children name chs (AList.update (name @ ''.processor'') old ps))"
      using c(2)[of "AList.update (name @ ''.processor'') old ps" for ps]
      by (simp only: all_to_update)
    then show ?thesis using Some c(1) by simp
  qed
next
  case (2 name processors)
  then show ?case by simp
next
  case (3 name sub_name child rest processors)
  from "3.IH"(1) obtain m' where m: 
    "fn_recursive_attn_processor (name @ ''.'' @ sub_name) child (Single p) = (m', Single p, None)"
    "\<And>ps. fn_recursive_add_processors (name @ ''.'' @ sub_name) m' (all_to p ps) = all_to p (fn_recursive_add_processors (name @ ''.'' @ sub_name) child ps)"
    by blast
  from "3.IH"(2) obtain rest' where r:
     "attn_processor_children name rest (Single p) = (rest', Single p, None)"
     "\<And>ps. add_processors_children name rest' (all_to p ps) = all_to p (add_processors_children name rest ps)"
    by blast
  show ?case using m r by simp
qed


lemma single_top:
  "\<exists>chs'. attn_processor_top (chs :: (string \<times> 'p module) list) (Single p) = (chs', Single p, None) \<and>
     (\<forall>ps. add_processors_top chs' (all_to p ps) = all_to p (add_processors_top chs ps))"
proof (induction chs)
  case Nil
  then show ?case by simp
next
  case (Cons x chs)
  obtain name m where x: "x = (name, m)" by (cases x)
  from single_walk(1)[of name m p] obtain m' where m:
    "fn_recursive_attn_processor name m (Single p) = (m', Single p, None)"
    "\<And>ps. fn_recursive_add_processors name m' (all_to p ps) = all_to p (fn_recursive_add_processors name m ps)"
    by blast
  from Cons obtain rest' where r:
    "attn_processor_top chs (Single p) = (rest', Single p, None)"
    "\<And>ps. add_processors_top rest' (all_to p ps) = all_to p (add_processors_top chs ps)"
    by blast
  show ?case unfolding x using m r by simp
qed

text \<open>
  Claim C9. Given a single processor instead of a dict, \<open>set_attn_processor\<close> cannot take
  the size-mismatch branch: it returns without an exception, and afterwards \<open>attn_processors\<close>
  reports the same paths as before, every one of them holding that one processor.
\<close>

theorem set_attn_processor_single:
  "\<exists>self'. set_attn_processor self (Single p) = (self', Single p, None) \<and>
      attn_processors self' = map (\<lambda>kv. (fst kv, p)) (attn_processors self)"
proof -
  from single_top[of "named_children self" p] obtain chs' where
    h: "attn_processor_top (named_children self) (Single p) = (chs', Single p, None)"
       "add_processors_top chs' (all_to p []) = all_to p (add_processors_top (named_children self) [])"
    by blast
  have "all_to p ([] :: 'a dict) = []" by (simp add: all_to_def)
  with h show ?thesis
    by (simp add: set_attn_processor_def attn_processors_def all_to_def)
qed

lemma assign_append: "assign d (ks @ ks') ps = assign d ks' (assign d ks ps)"
  by (simp add: assign_def)

lemma assign_Nil: "assign d [] ps = ps" by (simp add: assign_def)

lemma assign_Cons: "assign d (k # ks) ps = assign d ks (AList.update k (the (map_of d k)) ps)"
  by (simp add: assign_def)

lemma assign_cong: "(\<And>k. k \<in> set ks \<Longrightarrow> map_of d k = map_of d' k) \<Longrightarrow> assign d ks ps = assign d' ks ps"
  unfolding assign_def by (induction ks arbitrary: ps) auto

lemma dict_walk:
  "\<forall>d. (\<forall>k \<in> set (attn_paths_rec name m). map_of d k \<noteq> None) \<and> distinct (attn_paths_rec name m) \<longrightarrow>
     (\<exists>m' d'. fn_recursive_attn_processor name (m :: 'p module) (Dict d) = (m', Dict d', None) \<and>
        popped (set (attn_paths_rec name m)) d d' \<and>
        (\<forall>ps. fn_recursive_add_processors name m' ps = assign d (attn_paths_rec name m) ps))"
  "\<forall>d. (\<forall>k \<in> set (attn_paths_children name chs). map_of d k \<noteq> None) \<and> distinct (attn_paths_children name chs) \<longrightarrow>
     (\<exists>chs' d'. attn_processor_children name (chs :: (string \<times> 'p module) list) (Dict d) = (chs', Dict d', None) \<and>
        popped (set (attn_paths_children name chs)) d d' \<and>
        (\<forall>ps. add_processors_children name chs' ps = assign d (attn_paths_children name chs) ps))"
proof (induction name m "dummy :: 'p dict" and name chs "dummy :: 'p dict" rule: fn_recursive_add_processors_add_processors_children.induct)
  case (1 name pr chs processors)
  show ?case
  proof (intro allI impI, elim conjE)
    fix d :: "'p dict"
    assume present: "\<forall>k \<in> set (attn_paths_rec name (Module pr chs)). map_of d k \<noteq> None"
      and dist: "distinct (attn_paths_rec name (Module pr chs))"
    show "\<exists>m' d'. fn_recursive_attn_processor name (Module pr chs) (Dict d) = (m', Dict d', None) \<and>
        popped (set (attn_paths_rec name (Module pr chs))) d d' \<and>
        (\<forall>ps. fn_recursive_add_processors name m' ps = assign d (attn_paths_rec name (Module pr chs)) ps)"
    proof (cases pr)
      case None
      from present dist None have "(\<forall>k \<in> set (attn_paths_children name chs). map_of d k \<noteq> None) \<and> distinct (attn_paths_children name chs)"
        by simp
      with "1.IH" obtain chs' d' where c:
        "attn_processor_children name chs (Dict d) = (chs', Dict d', None)"
        "popped (set (attn_paths_children name chs)) d d'"
        "\<And>ps. add_processors_children name chs' ps = assign d (attn_paths_children name chs) ps"
        by blast
      then show ?thesis using None by simp
    next
      case (Some old)
      let ?key = "name @ ''.processor''"
      let ?d1 = "AList.delete ?key d"
      from present Some obtain p where p: "map_of d ?key = Some p" by auto
      from dist Some have notin: "?key \<notin> set (attn_paths_children name chs)"
        and dist': "distinct (attn_paths_children name chs)" by auto
      have same: "\<And>k. k \<in> set (attn_paths_children name chs) \<Longrightarrow> map_of ?d1 k = map_of d k"
        using notin by (auto simp: delete_conv')
      with present Some dist' have "(\<forall>k \<in> set (attn_paths_children name chs). map_of ?d1 k \<noteq> None) \<and> distinct (attn_paths_children name chs)"
        by simp
      with "1.IH" obtain chs' d' where c:
        "attn_processor_children name chs (Dict ?d1) = (chs', Dict d', None)"
        "popped (set (attn_paths_children name chs)) ?d1 d'"
        "\<And>ps. add_processors_children name chs' ps = assign ?d1 (attn_paths_children name chs) ps"
        by blast
      have pop: "popped (set (attn_paths_rec name (Module pr chs))) d d'"
        using c(2) Some by (auto simp: popped_def delete_conv')
      have add: "\<And>ps. fn_recursive_add_processors name (Module (Some p) chs') ps = assign d (attn_paths_rec name (Module pr chs)) ps"
        using c(3) Some p assign_cong[of "attn_paths_children name chs" ?d1 d, OF same]
        by (simp add: assign_Cons)
      show ?thesis using Some p c(1) pop add by simp
    qed
  qed
next
  case (2 name processors)
  then show ?case by (simp add: popped_def assign_Nil)
next
  case (3 name sub_name child rest processors)
  let ?n = "name @ ''.'' @ sub_name"
  show ?case
  proof (intro allI impI, elim conjE)
    fix d :: "'p dict"
    assume present: "\<forall>k \<in> set (attn_paths_children name ((sub_name, child) # rest)). map_of d k \<noteq> None"
      and dist: "distinct (attn_paths_children name ((sub_name, child) # rest))"
    from present dist have "(\<forall>k \<in> set (attn_paths_rec ?n child). map_of d k \<noteq> None) \<and> distinct (attn_paths_rec ?n child)"
      by simp
    with "3.IH"(1) obtain m' d1 where m:
      "fn_recursive_attn_processor ?n child (Dict d) = (m', Dict d1, None)"
      "popped (set (attn_paths_rec ?n child)) d d1"
      "\<And>ps. fn_recursive_add_processors ?n m' ps = assign d (attn_paths_rec ?n child) ps"
      by blast
    from dist have disj: "set (attn_paths_rec ?n child) \<inter> set (attn_paths_children name rest) = {}"
      and dist': "distinct (attn_paths_children name rest)" by auto
    have same: "\<And>k. k \<in> set (attn_paths_children name rest) \<Longrightarrow> map_of d1 k = map_of d k"
      using m(2) disj by (auto simp: popped_def)
    with present dist' have "(\<forall>k \<in> set (attn_paths_children name rest). map_of d1 k \<noteq> None) \<and> distinct (attn_paths_children name rest)"
      by simp
    with "3.IH"(2) obtain rest' d' where r:
      "attn_processor_children name rest (Dict d1) = (rest', Dict d', None)"
      "popped (set (attn_paths_children name rest)) d1 d'"
      "\<And>ps. add_processors_children name rest' ps = assign d1 (attn_paths_children name rest) ps"
      by blast
    have pop: "popped (set (attn_paths_children name ((sub_name, child) # rest))) d d'"
      using m(2) r(2) by (auto simp: popped_def)
    have add: "\<And>ps. add_processors_children name ((sub_name, m') # rest') ps = assign d (attn_paths_children name ((sub_name, child) # rest)) ps"
      using m(3) r(3) assign_cong[of "attn_paths_children name rest" d1 d, OF same]
      by (simp add: assign_append)
    show "\<exists>chs' d'. attn_processor_children name ((sub_name, child) # rest) (Dict d) = (chs', Dict d', None) \<and>
        popped (set (attn_paths_children name ((sub_name, child) # rest))) d d' \<and>
        (\<forall>ps. add_processors_children name chs' ps = assign d (attn_paths_children name ((sub_name, child) # rest)) ps)"
      using m(1) r(1) pop add by simp
  qed
qed


lemma dict_top:
  "(\<forall>k \<in> set (attn_paths_top chs). map_of d k \<noteq> None) \<Longrightarrow> distinct (attn_paths_top chs) \<Longrightarrow>
     \<exists>chs' d'. attn_processor_top (chs :: (string \<times> 'p module) list) (Dict d) = (chs', Dict d', None) \<and>
        popped (set (attn_paths_top chs)) d d' \<and>
        (\<forall>ps. add_processors_top chs' ps = assign d (attn_paths_top chs) ps)"
proof (induction chs arbitrary: d)
  case Nil
  then show ?case by (simp add: popped_def assign_Nil)
next
  case (Cons x rest)
  obtain name child where x: "x = (name, child)" by (cases x)
  from Cons.prems have "(\<forall>k \<in> set (attn_paths_rec name child). map_of d k \<noteq> None) \<and> distinct (attn_paths_rec name child)"
    unfolding x by simp
  with dict_walk(1)[of name child] obtain m' d1 where m:
    "fn_recursive_attn_processor name child (Dict d) = (m', Dict d1, None)"
    "popped (set (attn_paths_rec name child)) d d1"
    "\<And>ps. fn_recursive_add_processors name m' ps = assign d (attn_paths_rec name child) ps"
    by blast
  from Cons.prems have disj: "set (attn_paths_rec name child) \<inter> set (attn_paths_top rest) = {}"
    and dist': "distinct (attn_paths_top rest)" unfolding x by auto
  have same: "\<And>k. k \<in> set (attn_paths_top rest) \<Longrightarrow> map_of d1 k = map_of d k"
    using m(2) disj by (auto simp: popped_def)
  with Cons.prems(1) have "\<forall>k \<in> set (attn_paths_top rest). map_of d1 k \<noteq> None"
    unfolding x by simp
  from Cons.IH[OF this dist'] obtain rest' d' where r:
    "attn_processor_top rest (Dict d1) = (rest', Dict d', None)"
    "popped (set (attn_paths_top rest)) d1 d'"
    "\<And>ps. add_processors_top rest' ps = assign d1 (attn_paths_top rest) ps"
    by blast
  have pop: "popped (set (attn_paths_top (x # rest))) d d'"
    using m(2) r(2) unfolding x by (auto simp: popped_def)
  have add: "\<And>ps. add_processors_top ((name, m') # rest') ps = assign d (attn_paths_top (x # rest)) ps"
    using m(3) r(3) assign_cong[of "attn_paths_top rest" d1 d, OF same] unfolding x
    by (simp add: assign_append)
  show ?case using m(1) r(1) pop add unfolding x by simp
qed

lemma add_processors_keys:
  "fst ` set (fn_recursive_add_processors name (m :: 'p module) ps) = fst ` set ps \<union> set (attn_paths_rec name m)"
  "fst ` set (add_processors_children name (chs :: (string \<times> 'p module) list) ps) = fst ` set ps \<union> set (attn_paths_children name chs)"
proof (induction name m ps and name chs ps rule: fn_recursive_add_processors_add_processors_children.induct)
  case (1 name pr chs processors)
  then show ?case by (cases pr) (auto simp: dom_update)
next
  case (2 name processors)
  then show ?case by simp
next
  case (3 name sub_name child rest processors)
  then show ?case by auto
qed

lemma add_processors_top_keys:
  "fst ` set (add_processors_top (chs :: (string \<times> 'p module) list) ps) = fst ` set ps \<union> set (attn_paths_top chs)"
  by (induction chs ps rule: add_processors_top.induct) (auto simp: add_processors_keys)

lemma add_processors_distinct:
  "distinct (map fst ps) \<Longrightarrow> distinct (map fst (fn_recursive_add_processors name (m :: 'p module) ps))"
  "distinct (map fst ps) \<Longrightarrow> distinct (map fst (add_processors_children name (chs :: (string \<times> 'p module) list) ps))"
proof (induction name m ps and name chs ps rule: fn_recursive_add_processors_add_processors_children.induct)
  case (1 name pr chs processors)
  then show ?case by (cases pr) (auto simp: distinct_update)
next
  case (2 name processors)
  then show ?case by simp
next
  case (3 name sub_name child rest processors)
  then show ?case by auto
qed

lemma add_processors_top_distinct:
  "distinct (map fst ps) \<Longrightarrow> distinct (map fst (add_processors_top (chs :: (string \<times> 'p module) list) ps))"
  by (induction chs ps rule: add_processors_top.induct) (auto simp: add_processors_distinct)

lemma attn_processors_keys: "fst ` set (attn_processors self) = set (attn_paths self)"
  by (simp add: attn_processors_def attn_paths_def add_processors_top_keys)

lemma attn_processors_distinct: "distinct (map fst (attn_processors self))"
  by (simp add: attn_processors_def add_processors_top_distinct)

lemma map_of_assign:
  "map_of (assign d ks ps) k = (if k \<in> set ks then Some (the (map_of d k)) else map_of ps k)"
  unfolding assign_def by (induction ks arbitrary: ps) (auto simp: update_conv')

lemma walk_no_ValueError:
  "\<forall>a. snd (snd (fn_recursive_attn_processor name (m :: 'p module) a)) \<noteq> Some ValueError"
  "\<forall>a. snd (snd (attn_processor_children name (chs :: (string \<times> 'p module) list) a)) \<noteq> Some ValueError"
proof (induction name m "dummy :: 'p dict" and name chs "dummy :: 'p dict" rule: fn_recursive_add_processors_add_processors_children.induct)
  case (1 name pr chs processors)
  show ?case
  proof
    fix a :: "'p processor_arg"
    from "1.IH" have ih: "\<And>b. snd (snd (attn_processor_children name chs b)) \<noteq> Some ValueError" by blast
    show "snd (snd (fn_recursive_attn_processor name (Module pr chs) a)) \<noteq> Some ValueError"
    proof (cases pr)
      case None
      then show ?thesis using ih[of a] by (auto split: prod.splits)
    next
      case (Some old)
      show ?thesis
      proof (cases a)
        case (Single p)
        then show ?thesis using Some ih[of a] by (auto split: prod.splits)
      next
        case (Dict d)
        then show ?thesis using Some ih[of "Dict (AList.delete (name @ ''.processor'') d)"]
          by (auto split: prod.splits option.splits)
      qed
    qed
  qed
next
  case (2 name processors)
  then show ?case by simp
next
  case (3 name sub_name child rest processors)
  show ?case
  proof
    fix a :: "'p processor_arg"
    obtain c' a' e where c: "fn_recursive_attn_processor (name @ ''.'' @ sub_name) child a = (c', a', e)"
      by (cases "fn_recursive_attn_processor (name @ ''.'' @ sub_name) child a") auto
    from "3.IH"(1) c have e: "e \<noteq> Some ValueError" by (metis snd_conv)
    from "3.IH"(2) have r: "snd (snd (attn_processor_children name rest a')) \<noteq> Some ValueError" by blast
    show "snd (snd (attn_processor_children name ((sub_name, child) # rest) a)) \<noteq> Some ValueError"
      using c e r by (cases e) (auto split: prod.splits)
  qed
qed

lemma top_no_ValueError:
  "snd (snd (attn_processor_top (chs :: (string \<times> 'p module) list) a)) \<noteq> Some ValueError"
proof (induction chs arbitrary: a)
  case Nil
  then show ?case by simp
next
  case (Cons x rest)
  obtain name m where x: "x = (name, m)" by (cases x)
  obtain c' a' e where c: "fn_recursive_attn_processor name m a = (c', a', e)"
    by (cases "fn_recursive_attn_processor name m a") auto
  from walk_no_ValueError(1)[of name m] c have e: "e \<noteq> Some ValueError" by (metis snd_conv)
  show ?case using c e Cons[of a'] unfolding x by (cases e) (auto split: prod.splits)
qed

text \<open>
  Claim C4, as amended. For a dict with distinct keys and a module tree whose attention paths
  are distinct: \<open>ValueError\<close> is raised exactly when the dict's size differs from the number
  of entries of \<open>attn_processors\<close>; in that case the model is left as it was; and a dict
  whose keys are exactly the paths of \<open>attn_processors\<close> has the right size, is accepted
  without an exception, and afterwards \<open>attn_processors\<close> maps every path to the processor
  the dict supplied for it.
\<close>

theorem set_attn_processor_dict:
  assumes "distinct (map fst d)" and "distinct (attn_paths self)"
  shows "((snd (snd (set_attn_processor self (Dict d))) = Some ValueError) = (length d \<noteq> length (attn_processors self)))
       \<and> (length d \<noteq> length (attn_processors self) \<longrightarrow> fst (set_attn_processor self (Dict d)) = self)
       \<and> (fst ` set d = fst ` set (attn_processors self) \<longrightarrow>
            length d = length (attn_processors self) \<and>
            (\<exists>self' d'. set_attn_processor self (Dict d) = (self', Dict d', None) \<and>
                map_of (attn_processors self') = map_of d))"
proof (intro conjI impI)
  show "(snd (snd (set_attn_processor self (Dict d))) = Some ValueError) = (length d \<noteq> length (attn_processors self))"
    using top_no_ValueError[of "named_children self" "Dict d"]
    by (auto simp: set_attn_processor_def split: prod.splits)
next
  assume "length d \<noteq> length (attn_processors self)"
  then show "fst (set_attn_processor self (Dict d)) = self"
    by (simp add: set_attn_processor_def)
next
  assume keys: "fst ` set d = fst ` set (attn_processors self)"
  have "length d = card (fst ` set d)"
    using assms(1) distinct_card[of "map fst d"] by simp
  also have "\<dots> = card (fst ` set (attn_processors self))" using keys by simp
  also have "\<dots> = length (attn_processors self)"
    using attn_processors_distinct[of self] distinct_card[of "map fst (attn_processors self)"] by simp
  finally show len: "length d = length (attn_processors self)" .
  have paths: "fst ` set d = set (attn_paths_top (named_children self))"
    using keys by (simp add: attn_processors_keys attn_paths_def)
  have present: "\<forall>k \<in> set (attn_paths_top (named_children self)). map_of d k \<noteq> None"
    using paths by (metis map_of_eq_None_iff)
  from dict_top[OF present] assms(2) obtain chs' d' where w:
    "attn_processor_top (named_children self) (Dict d) = (chs', Dict d', None)"
    "\<And>ps. add_processors_top chs' ps = assign d (attn_paths_top (named_children self)) ps"
    unfolding attn_paths_def by blast
  let ?self' = "Module (get_processor self) chs'"
  have res: "set_attn_processor self (Dict d) = (?self', Dict d', None)"
    using len w(1) by (simp add: set_attn_processor_def)
  have "map_of (attn_processors ?self') k = map_of d k" for k
  proof (cases "k \<in> fst ` set d")
    case True
    then obtain v where "map_of d k = Some v" by (metis map_of_eq_None_iff not_Some_eq)
    then show ?thesis using True paths by (simp add: attn_processors_def w(2) map_of_assign)
  next
    case False
    then have "map_of d k = None" by (simp add: map_of_eq_None_iff)
    then show ?thesis using False paths by (simp add: attn_processors_def w(2) map_of_assign)
  qed
  then have "map_of (attn_processors ?self') = map_of d" by (rule ext)
  with res show "\<exists>self' d'. set_attn_processor self (Dict d) = (self', Dict d', None) \<and>
                map_of (attn_processors self') = map_of d" by blast
qed

lemma example_procs: "attn_processors example_tree =
   [(''transformer_blocks.0.attn1.processor'', 0), (''transformer_blocks.0.attn2.processor'', 1)]"
  by (simp add: example_tree_def attn_processors_def)

lemma example_paths: "attn_paths example_tree =
   [''transformer_blocks.0.attn1.processor'', ''transformer_blocks.0.attn2.processor'']"
  by (simp add: example_tree_def attn_paths_def)

theorem set_attn_processor_dict_witness:
  "distinct (map fst [(''transformer_blocks.0.attn2.processor'', 8::nat), (''transformer_blocks.0.attn1.processor'', 7)])
   \<and> distinct (attn_paths example_tree)
   \<and> fst ` set [(''transformer_blocks.0.attn2.processor'', 8::nat), (''transformer_blocks.0.attn1.processor'', 7)]
        = fst ` set (attn_processors example_tree)
   \<and> (\<exists>self' d'. set_attn_processor example_tree
           (Dict [(''transformer_blocks.0.attn2.processor'', 8), (''transformer_blocks.0.attn1.processor'', 7)]) = (self', Dict d', None)
         \<and> map_of (attn_processors self')
            = map_of [(''transformer_blocks.0.attn2.processor'', 8), (''transformer_blocks.0.attn1.processor'', 7)])"
proof -
  let ?d = "[(''transformer_blocks.0.attn2.processor'', 8::nat), (''transformer_blocks.0.attn1.processor'', 7)]"
  have a: "distinct (map fst ?d)" by simp
  have b: "distinct (attn_paths example_tree)" by (simp add: example_paths)
  have c: "fst ` set ?d = fst ` set (attn_processors example_tree)" by (auto simp: example_procs)
  from set_attn_processor_dict[OF a b] c a b show ?thesis by blast
qed

text \<open>
  The "if and only if" of claim C4 fails: a dict of the right size with a key that is no
  attention path raises \<open>KeyError\<close> at the first layer whose key is missing, after the
  layers visited before it have been given their new processor.
\<close>

theorem set_attn_processor_dict_counterexample:
  "length [(''transformer_blocks.0.attn1.processor'', 7::nat), (''wrong.path'', 8)] = length (attn_processors example_tree)
   \<and> set_attn_processor example_tree (Dict [(''transformer_blocks.0.attn1.processor'', 7), (''wrong.path'', 8)])
     = (Module None
       [(''patch_embed'', Module None []),
        (''transformer_blocks'',
           Module None
             [(''0'', Module None
                 [(''norm1'', Module None []),
                  (''attn1'', Module (Some 7) [(''to_q'', Module None [])]),
                  (''attn2'', Module (Some 1) []),
                  (''ff'', Module None [])])]),
        (''proj_out'', Module None [])],
        Dict [(''wrong.path'', 8)],
        Some (KeyError ''transformer_blocks.0.attn2.processor''))"
  by (simp add: example_procs) (simp add: set_attn_processor_def example_procs, simp add: example_tree_def)

end
